theory Spec2Isabelle
  imports Complex_Main "HOL-Library.Char_ord" "HOL-Library.List_Lexorder"
begin

section \<open>BiG-SCAPE: distance engine and network generation (bigscape.py)\<close>

text \<open>
  A shallow embedding of the parts of \<^verbatim>\<open>bigscape.py\<close> that compute pairwise distances
  between gene clusters and assemble the result tables: \<^verbatim>\<open>cluster_distance\<close>,
  \<^verbatim>\<open>generate_dist_matrix\<close>, \<^verbatim>\<open>generate_network\<close> and the pieces of the main program
  that parse the cutoffs and reuse tables across partitions.

  Conventions.
  \<^item> Python floats are modelled as \<^typ>\<open>real\<close>: rounding is not modelled.
  \<^item> Every exception the source can raise is a value \<open>Inl e\<close> of a sum type.
  \<^item> Python sets are modelled as duplicate-free lists (\<^const>\<open>remdups\<close>); the order in
    which the source iterates over a set is the order of that list.
  \<^item> The process-wide tables of the source (\<^verbatim>\<open>DomainList\<close>, \<^verbatim>\<open>BGCs\<close>,
    \<^verbatim>\<open>AlignedDomainSequences\<close>, \<^verbatim>\<open>anchor_domains\<close>, \<^verbatim>\<open>group_dct\<close>,
    \<^verbatim>\<open>metagenomic\<close>) are the fields of one record that is passed explicitly.
\<close>

subsection \<open>Python values and errors\<close>

datatype error = KeyError | IOError | IndexError | ZeroDivisionError | ValueError

text \<open>Sequencing of computations that may raise.\<close>

definition bnd :: "error + 'a \<Rightarrow> ('a \<Rightarrow> error + 'b) \<Rightarrow> error + 'b" where
  "bnd m f = (case m of Inl e \<Rightarrow> Inl e | Inr x \<Rightarrow> f x)"

fun mapM :: "('a \<Rightarrow> error + 'b) \<Rightarrow> 'a list \<Rightarrow> error + 'b list" where
  "mapM f [] = Inr []"
| "mapM f (x # xs) = bnd (f x) (\<lambda>y. bnd (mapM f xs) (\<lambda>ys. Inr (y # ys)))"

text \<open>\<^verbatim>\<open>d[k]\<close> on a dict, \<^verbatim>\<open>xs[i]\<close> on a list with a non-negative index, and float division.\<close>

definition py_get :: "('k \<rightharpoonup> 'v) \<Rightarrow> 'k \<Rightarrow> error + 'v" where
  "py_get m k = (case m k of None \<Rightarrow> Inl KeyError | Some v \<Rightarrow> Inr v)"

definition py_index :: "'a list \<Rightarrow> nat \<Rightarrow> error + 'a" where
  "py_index xs i = (if i < length xs then Inr (xs ! i) else Inl IndexError)"

definition py_div :: "real \<Rightarrow> real \<Rightarrow> error + real" where
  "py_div x y = (if y = 0 then Inl ZeroDivisionError else Inr (x / y))"

text \<open>\<^verbatim>\<open>s.split(c)\<close> for a one-character separator, and \<^verbatim>\<open>s.strip()\<close>.\<close>

fun split_on :: "char \<Rightarrow> string \<Rightarrow> string list" where
  "split_on c [] = [[]]"
| "split_on c (x # xs) =
     (if x = c then [] # split_on c xs
      else (case split_on c xs of [] \<Rightarrow> [[x]] | w # ws \<Rightarrow> (x # w) # ws))"

definition is_space :: "char \<Rightarrow> bool" where
  "is_space c = (c \<in> set [CHR '' '', CHR 0x09, CHR 0x0A, CHR 0x0B, CHR 0x0C, CHR 0x0D])"

definition strip :: "string \<Rightarrow> string" where
  "strip s = rev (dropWhile is_space (rev (dropWhile is_space s)))"

subsection \<open>The cutoff list (main program, lines 923--929)\<close>

text \<open>
  \<^verbatim>\<open>
  cutoff_list = [float(c.strip()) for c in options.cutoffs.split(",")]
  for c in cutoff_list:
      if c <= 0.0:
          cutoff_list.remove(c)
  if 1.0 not in cutoff_list:
      cutoff_list.append(1.0)
  \<close>
  The \<^verbatim>\<open>for\<close> loop walks the list by position while \<^verbatim>\<open>remove\<close> deletes the first
  element equal to \<open>c\<close> from the same list: \<open>cutoff_filter i xs\<close> is the list left
  when the loop is at position \<open>i\<close> of the list \<open>xs\<close>.
  Python's \<^verbatim>\<open>float\<close> is a parameter \<open>pfloat\<close> of the model (\<open>None\<close>: ValueError).
\<close>

function cutoff_filter :: "nat \<Rightarrow> real list \<Rightarrow> real list" where
  "cutoff_filter i xs =
     (if i < length xs
      then (if xs ! i \<le> 0 then cutoff_filter (Suc i) (remove1 (xs ! i) xs)
            else cutoff_filter (Suc i) xs)
      else xs)"
  by pat_completeness auto
termination
  apply (relation "measure (\<lambda>(i, xs). length xs - i)")
    apply simp
   apply (simp add: length_remove1)
  apply simp
  done

declare cutoff_filter.simps [simp del]

definition parse_cutoffs :: "(string \<Rightarrow> real option) \<Rightarrow> string \<Rightarrow> error + real list" where
  "parse_cutoffs pfloat s =
     mapM (\<lambda>c. case pfloat (strip c) of None \<Rightarrow> Inl ValueError | Some x \<Rightarrow> Inr x)
          (split_on CHR '','' s)"

definition cutoff_list :: "(string \<Rightarrow> real option) \<Rightarrow> string \<Rightarrow> error + real list" where
  "cutoff_list pfloat s =
     bnd (parse_cutoffs pfloat s) (\<lambda>xs.
       let ys = cutoff_filter 0 xs
       in Inr (if 1 \<in> set ys then ys else ys @ [1]))"

text \<open>
  A reader of plain decimal numerals (\<^verbatim>\<open>12\<close>, \<^verbatim>\<open>0.25\<close>, \<^verbatim>\<open>-3.5\<close>), a fragment of
  what Python's \<^verbatim>\<open>float\<close> accepts, used to run the model on concrete option strings.
\<close>

definition digit_of :: "char \<Rightarrow> nat option" where
  "digit_of c = (let n = of_char c :: nat in if 48 \<le> n \<and> n \<le> 57 then Some (n - 48) else None)"

fun digits_of :: "nat \<Rightarrow> string \<Rightarrow> nat option" where
  "digits_of acc [] = Some acc"
| "digits_of acc (c # cs) =
     (case digit_of c of None \<Rightarrow> None | Some d \<Rightarrow> digits_of (10 * acc + d) cs)"

definition unsigned_decimal :: "string \<Rightarrow> real option" where
  "unsigned_decimal s =
     (let ip = takeWhile (\<lambda>c. c \<noteq> CHR ''.'') s; fp = drop (Suc (length ip)) s
      in if ip = [] \<and> fp = [] then None
         else (case (digits_of 0 ip, digits_of 0 fp) of
                 (Some a, Some b) \<Rightarrow> Some (real a + real b / 10 ^ length fp)
               | _ \<Rightarrow> None))"

definition decimal_float :: "string \<Rightarrow> real option" where
  "decimal_float s =
     (case s of
        c # cs \<Rightarrow> (if c = CHR ''-'' then map_option uminus (unsigned_decimal cs)
                   else unsigned_decimal s)
      | [] \<Rightarrow> None)"

subsection \<open>The tables of a run\<close>

type_synonym bgc = string
type_synonym domain = string
type_synonym tag = string

text \<open>
  The global tables read by the distance functions. Three fields stand for collaborators
  that are not part of \<^verbatim>\<open>bigscape.py\<close>:
  \<^item> \<open>domain_fasta d\<close> is the content of \<^verbatim>\<open><domains_folder>/<d>.fasta\<close> as
    \<^verbatim>\<open>fasta_parser\<close> returns it (\<open>None\<close>: the file cannot be opened);
  \<^item> \<open>globalds x y\<close> is the list of alignments returned by Biopython's
    \<^verbatim>\<open>pairwise2.align.globalds(x, y, scoring_matrix, -15, -6.67, one_alignment_only=True)\<close>,
    each reduced to its two aligned strings;
  \<^item> \<open>get_domain_list c\<close> is \<^verbatim>\<open>get_domain_list\<close> applied to the \<^verbatim>\<open>.pfs\<close> file of \<open>c\<close>.
\<close>

record tables =
  DomainList :: "bgc \<rightharpoonup> domain list"
  BGCs :: "bgc \<rightharpoonup> (domain \<rightharpoonup> tag list)"
  AlignedDomainSequences :: "tag \<rightharpoonup> string"
  anchor_domains :: "string list"
  group_dct :: "bgc \<rightharpoonup> string \<times> string"
  metagenomic :: bool
  domain_fasta :: "domain \<rightharpoonup> (tag \<rightharpoonup> string)"
  globalds :: "string \<Rightarrow> string \<Rightarrow> (string \<times> string) list"
  get_domain_list :: "bgc \<Rightarrow> error + domain list"

text \<open>The weight table of the main program (lines 1023--1040): J, DDS, AI, anchorboost.\<close>

definition bgc_class_weight :: "string \<rightharpoonup> real \<times> real \<times> real \<times> real" where
  "bgc_class_weight = map_of
     [(''PKSI'', (0.22, 0.76, 0.02, 1.0)),
      (''PKSother'', (0.0, 0.32, 0.68, 4.0)),
      (''NRPS'', (0.0, 1.0, 0.0, 4.0)),
      (''RiPPs'', (0.28, 0.71, 0.01, 1.0)),
      (''Saccharides'', (0.0, 0.0, 1.0, 1.0)),
      (''Terpene'', (0.2, 0.75, 0.05, 2.0)),
      (''PKS-NRP_Hybrids'', (0.0, 0.78, 0.22, 1.0)),
      (''Others'', (0.01, 0.97, 0.02, 4.0)),
      (''mix'', (0.2, 0.75, 0.05, 2.0))]"

text \<open>Messages printed by the distance functions.\<close>

datatype diag =
    SeqLengthMismatch domain
  | NegativeDistance bgc bgc
  | DistanceWarning bgc bgc
  | NoneHaveDomains
  | HasNoDomains bgc
  | LogscoreError bgc bgc

fun foldM :: "('a \<Rightarrow> 's \<Rightarrow> error + 's) \<Rightarrow> 'a list \<Rightarrow> 's \<Rightarrow> error + 's" where
  "foldM f [] s = Inr s"
| "foldM f (x # xs) s = bnd (f x s) (foldM f xs)"

subsection \<open>Sequence identity of two aligned domain sequences (lines 454--472)\<close>

text \<open>
  \<^verbatim>\<open>
  if len(aligned_seqA) != len(aligned_seqB):
      print("\tWARNING: mismatch in sequences' lengths ...")
      seq_length = min(len(aligned_seqA), len(aligned_seqB))
  else:
      seq_length = len(aligned_seqA)
  for position in range(seq_length):
      if aligned_seqA[position] == aligned_seqB[position]:
          if aligned_seqA[position] != "-":
              matches += 1
          else:
              gaps += 1
  DistanceMatrix[domsa][domsb] = 1 - ( float(matches)/float(seq_length-gaps) )
  \<close>
\<close>

definition seq_length :: "string \<Rightarrow> string \<Rightarrow> nat" where
  "seq_length aligned_seqA aligned_seqB =
     (if length aligned_seqA \<noteq> length aligned_seqB
      then min (length aligned_seqA) (length aligned_seqB)
      else length aligned_seqA)"

definition count_position :: "string \<Rightarrow> string \<Rightarrow> nat \<Rightarrow> nat \<times> nat \<Rightarrow> nat \<times> nat" where
  "count_position aligned_seqA aligned_seqB position = (\<lambda>(matches, gaps).
     if aligned_seqA ! position = aligned_seqB ! position
     then (if aligned_seqA ! position \<noteq> CHR ''-'' then (matches + 1, gaps)
           else (matches, gaps + 1))
     else (matches, gaps))"

definition matches_gaps :: "string \<Rightarrow> string \<Rightarrow> nat \<times> nat" where
  "matches_gaps aligned_seqA aligned_seqB =
     fold (count_position aligned_seqA aligned_seqB)
          [0..<seq_length aligned_seqA aligned_seqB] (0, 0)"

definition sequence_distance :: "domain \<Rightarrow> string \<Rightarrow> string \<Rightarrow> error + real \<times> diag list" where
  "sequence_distance shared_domain aligned_seqA aligned_seqB =
     (let warn = (if length aligned_seqA \<noteq> length aligned_seqB
                  then [SeqLengthMismatch shared_domain] else []);
          (matches, gaps) = matches_gaps aligned_seqA aligned_seqB
      in bnd (py_div (real matches)
                (real_of_int (int (seq_length aligned_seqA aligned_seqB) - int gaps)))
           (\<lambda>q. Inr (1 - q, warn)))"

subsection \<open>Aligned sequences of two occurrences (lines 422--451)\<close>

text \<open>
  Both sequences are read from \<^verbatim>\<open>AlignedDomainSequences\<close>; when either is missing the
  unaligned sequences are read from the fasta file of the domain and aligned pairwise.
  The dict \<^verbatim>\<open>temp_domain_fastas\<close> only caches the parsed file of the current shared
  domain (it is cleared for every shared domain), so a lookup in it is a lookup in the
  parsed file.
\<close>

definition aligned_sequences :: "tables \<Rightarrow> domain \<Rightarrow> tag \<Rightarrow> tag \<Rightarrow> error + string \<times> string" where
  "aligned_sequences env shared_domain sequence_tag_a sequence_tag_b =
     (case (AlignedDomainSequences env sequence_tag_a, AlignedDomainSequences env sequence_tag_b) of
        (Some aligned_seqA, Some aligned_seqB) \<Rightarrow> Inr (aligned_seqA, aligned_seqB)
      | _ \<Rightarrow>
        (case domain_fasta env shared_domain of
           None \<Rightarrow> Inl IOError
         | Some temp_domain_fastas \<Rightarrow>
             bnd (py_get temp_domain_fastas sequence_tag_a) (\<lambda>unaligned_seqA.
             bnd (py_get temp_domain_fastas sequence_tag_b) (\<lambda>unaligned_seqB.
               (case globalds env unaligned_seqA unaligned_seqB of
                  [] \<Rightarrow> Inl IndexError
                | bestAlignment # _ \<Rightarrow> Inr bestAlignment)))))"

subsection \<open>Optimal assignment\<close>

text \<open>
  The \<^verbatim>\<open>munkres\<close> package is an external dependency. \<open>Munkres_compute\<close> follows its
  contract (section 4.2 of the specification): for an \<open>m\<times>n\<close> cost matrix it returns
  a one-to-one assignment of \<open>min m n\<close> (row, column) pairs of minimal total cost.
  The source only uses the total cost of the returned assignment.
\<close>

definition assignments :: "nat \<Rightarrow> nat \<Rightarrow> (nat \<times> nat) list list" where
  "assignments m n =
     filter (\<lambda>p. distinct (map fst p) \<and> distinct (map snd p))
            (List.n_lists (min m n) (List.product [0..<m] [0..<n]))"

definition assignment_cost :: "real list list \<Rightarrow> (nat \<times> nat) list \<Rightarrow> real" where
  "assignment_cost DistanceMatrix BestIndexes =
     sum_list (map (\<lambda>bi. DistanceMatrix ! fst bi ! snd bi) BestIndexes)"

definition Munkres_compute :: "real list list \<Rightarrow> (nat \<times> nat) list" where
  "Munkres_compute DistanceMatrix =
     arg_min_list (assignment_cost DistanceMatrix)
       (assignments (length DistanceMatrix)
                    (case DistanceMatrix of [] \<Rightarrow> 0 | row # _ \<Rightarrow> length row))"

subsection \<open>\<^verbatim>\<open>cluster_distance\<close> (lines 260--564)\<close>

record scores =
  Distance :: real
  Jaccard :: real
  DDS :: real
  AI :: real
  DDS_non_anchor :: real
  DDS_anchor :: real
  S_nonanchor :: nat
  S_anchor :: nat

text \<open>\<^verbatim>\<open>domain.split(".")[0]\<close> and the anchor test; \<^verbatim>\<open>BGCs[X][domain]\<close>.\<close>

definition anchor_key :: "domain \<Rightarrow> string" where
  "anchor_key d = (case split_on CHR ''.'' d of [] \<Rightarrow> [] | w # _ \<Rightarrow> w)"

definition is_anchor :: "tables \<Rightarrow> domain \<Rightarrow> bool" where
  "is_anchor env d = (anchor_key d \<in> set (anchor_domains env))"

definition occurrences :: "tables \<Rightarrow> bgc \<Rightarrow> domain \<Rightarrow> error + tag list" where
  "occurrences env X d = bnd (py_get (BGCs env) X) (\<lambda>m. py_get m d)"

text \<open>Totally unrelated pairs (lines 280--297).\<close>

definition tally :: "tables \<Rightarrow> bgc \<Rightarrow> domain \<Rightarrow> nat \<times> nat \<Rightarrow> error + nat \<times> nat" where
  "tally env X d = (\<lambda>(S, Sa).
     bnd (occurrences env X d) (\<lambda>occ.
       Inr (if is_anchor env d then (S, Sa + length occ) else (S + length occ, Sa))))"

definition unrelated :: "tables \<Rightarrow> bgc \<Rightarrow> bgc \<Rightarrow> domain list \<Rightarrow> domain list \<Rightarrow> error + scores \<times> diag list" where
  "unrelated env A B setA setB =
     bnd (foldM (tally env A) setA (0, 0)) (\<lambda>acc.
     bnd (foldM (tally env B) setB acc) (\<lambda>(S, Sa).
       Inr (\<lparr>Distance = 1.0, Jaccard = 0.0, DDS = 0.0, AI = 0.0, DDS_non_anchor = 1.0,
             DDS_anchor = 1.0, S_nonanchor = S, S_anchor = Sa\<rparr>, [])))"

text \<open>
  The slice of occurrence tags of every domain that enters the DDS (lines 302--361).
  The four \<^verbatim>\<open>defaultdict(int)\<close> are functions with default \<open>0\<close>. In metagenomic mode
  the shorter list is A and the window of the longer list that shares most domain types
  with it is B.
\<close>

record frame =
  f_A :: bgc
  f_B :: bgc
  f_A_domlist :: "domain list"
  f_B_domlist :: "domain list"
  f_setA :: "domain list"
  f_setB :: "domain list"
  f_intersect :: "domain list"
  A_domain_sequence_slice_bottom :: "domain \<Rightarrow> nat"
  A_domain_sequence_slice_top :: "domain \<Rightarrow> nat"
  B_domain_sequence_slice_bottom :: "domain \<Rightarrow> nat"
  B_domain_sequence_slice_top :: "domain \<Rightarrow> nat"

definition whole_slices ::
  "tables \<Rightarrow> bgc \<Rightarrow> domain list \<Rightarrow> error + (domain \<Rightarrow> nat) \<times> (domain \<Rightarrow> nat)" where
  "whole_slices env X setX =
     foldM (\<lambda>domain (bottom, top).
              bnd (occurrences env X domain) (\<lambda>occ.
                Inr (bottom(domain := 0), top(domain := length occ))))
           setX (\<lambda>_. 0, \<lambda>_. 0)"

definition best_window :: "domain list \<Rightarrow> domain list \<Rightarrow> nat \<Rightarrow> nat \<times> domain list" where
  "best_window setA tmpB_domlist lengthA =
     fold (\<lambda>i (startB, intersect).
             let tmpBset = remdups (take lengthA (drop i tmpB_domlist));
                 candidate = filter (\<lambda>d. d \<in> set tmpBset) setA
             in if length candidate > length intersect then (i, candidate)
                else (startB, intersect))
          [0..<nat (int (length tmpB_domlist) - int lengthA + 1)] (0, [])"

definition slices :: "tables \<Rightarrow> bgc \<Rightarrow> bgc \<Rightarrow> domain list \<Rightarrow> domain list \<Rightarrow> error + frame" where
  "slices env a b a_domlist b_domlist =
     (if metagenomic env then
        (let (A, B, A_domlist, tmpB_domlist) =
               (if length a_domlist < length b_domlist then (a, b, a_domlist, b_domlist)
                else (b, a, b_domlist, a_domlist));
             setA = remdups A_domlist;
             lengthA = length A_domlist;
             (startB, intersect) = best_window setA tmpB_domlist lengthA;
             B_domlist = take lengthA (drop startB tmpB_domlist);
             setB = remdups B_domlist
         in bnd (whole_slices env A setA) (\<lambda>(A_bottom, A_top).
              let B_bottom = fold (\<lambda>domain bottom. bottom(domain := bottom domain + 1))
                                  (take startB tmpB_domlist) (\<lambda>_. 0);
                  B_top0 = fold (\<lambda>domain top. top(domain := B_bottom domain)) setB (\<lambda>_. 0);
                  B_top = fold (\<lambda>domain top. top(domain := top domain + 1))
                               (take lengthA (drop startB tmpB_domlist)) B_top0
              in Inr \<lparr>f_A = A, f_B = B, f_A_domlist = A_domlist, f_B_domlist = B_domlist,
                      f_setA = setA, f_setB = setB, f_intersect = intersect,
                      A_domain_sequence_slice_bottom = A_bottom,
                      A_domain_sequence_slice_top = A_top,
                      B_domain_sequence_slice_bottom = B_bottom,
                      B_domain_sequence_slice_top = B_top\<rparr>))
      else
        (let setA = remdups a_domlist; setB = remdups b_domlist
         in bnd (whole_slices env a setA) (\<lambda>(A_bottom, A_top).
            bnd (whole_slices env b setB) (\<lambda>(B_bottom, B_top).
              Inr \<lparr>f_A = a, f_B = b, f_A_domlist = a_domlist, f_B_domlist = b_domlist,
                    f_setA = setA, f_setB = setB,
                    f_intersect = filter (\<lambda>d. d \<in> set setB) setA,
                    A_domain_sequence_slice_bottom = A_bottom,
                    A_domain_sequence_slice_top = A_top,
                    B_domain_sequence_slice_bottom = B_bottom,
                    B_domain_sequence_slice_top = B_top\<rparr>))))"

text \<open>Domains of only one of the two clusters (lines 376--395).\<close>

definition unshared_step :: "tables \<Rightarrow> bgc \<Rightarrow> bgc \<Rightarrow> domain \<Rightarrow> nat \<times> nat \<Rightarrow> error + nat \<times> nat" where
  "unshared_step env A B unshared_domain = (\<lambda>(domain_difference, domain_difference_anchor).
     bnd (case occurrences env A unshared_domain of
            Inr occ \<Rightarrow> Inr occ
          | Inl _ \<Rightarrow> occurrences env B unshared_domain)
       (\<lambda>unshared_occurrences.
          Inr (if is_anchor env unshared_domain
               then (domain_difference, domain_difference_anchor + length unshared_occurrences)
               else (domain_difference + length unshared_occurrences, domain_difference_anchor))))"

text \<open>Shared domains: the matrix of sequence distances and its best assignment (lines 399--495).\<close>

definition matrix_cell ::
  "tables \<Rightarrow> domain \<Rightarrow> tag list \<Rightarrow> tag list \<Rightarrow> nat \<Rightarrow> nat \<Rightarrow> nat \<Rightarrow> nat \<Rightarrow> error + real \<times> diag list" where
  "matrix_cell env shared_domain specific_domain_list_A specific_domain_list_B bottom_a bottom_b domsa domsb =
     bnd (py_index specific_domain_list_A (domsa + bottom_a)) (\<lambda>sequence_tag_a.
     bnd (py_index specific_domain_list_B (domsb + bottom_b)) (\<lambda>sequence_tag_b.
     bnd (aligned_sequences env shared_domain sequence_tag_a sequence_tag_b) (\<lambda>(aligned_seqA, aligned_seqB).
       sequence_distance shared_domain aligned_seqA aligned_seqB)))"

definition fill_matrix ::
  "tables \<Rightarrow> domain \<Rightarrow> tag list \<Rightarrow> tag list \<Rightarrow> nat \<Rightarrow> nat \<Rightarrow> nat \<Rightarrow> nat \<Rightarrow> error + (real \<times> diag list) list list" where
  "fill_matrix env shared_domain specific_domain_list_A specific_domain_list_B bottom_a bottom_b num_copies_a num_copies_b =
     mapM (\<lambda>domsa.
             mapM (matrix_cell env shared_domain specific_domain_list_A specific_domain_list_B
                     bottom_a bottom_b domsa)
                  [0..<num_copies_b])
          [0..<num_copies_a]"

definition shared_step ::
  "tables \<Rightarrow> frame \<Rightarrow> domain \<Rightarrow> nat \<times> nat \<times> real \<times> real \<times> diag list
     \<Rightarrow> error + nat \<times> nat \<times> real \<times> real \<times> diag list" where
  "shared_step env fr shared_domain = (\<lambda>(S, Sa, domain_difference, domain_difference_anchor, log).
     bnd (occurrences env (f_A fr) shared_domain) (\<lambda>specific_domain_list_A.
     bnd (occurrences env (f_B fr) shared_domain) (\<lambda>specific_domain_list_B.
       let num_copies_a = A_domain_sequence_slice_top fr shared_domain
                            - A_domain_sequence_slice_bottom fr shared_domain;
           num_copies_b = B_domain_sequence_slice_top fr shared_domain
                            - B_domain_sequence_slice_bottom fr shared_domain
       in bnd (fill_matrix env shared_domain specific_domain_list_A specific_domain_list_B
                 (A_domain_sequence_slice_bottom fr shared_domain)
                 (B_domain_sequence_slice_bottom fr shared_domain) num_copies_a num_copies_b)
            (\<lambda>cells.
               let DistanceMatrix = map (map fst) cells;
                   BestIndexes = Munkres_compute DistanceMatrix;
                   accumulated_distance = assignment_cost DistanceMatrix BestIndexes;
                   sum_seq_dist = \<bar>real num_copies_a - real num_copies_b\<bar> + accumulated_distance;
                   normalization_element = max num_copies_a num_copies_b;
                   log' = log @ concat (map (\<lambda>row. concat (map snd row)) cells)
               in Inr (if is_anchor env shared_domain
                       then (S, Sa + normalization_element, domain_difference,
                             domain_difference_anchor + sum_seq_dist, log')
                       else (S + normalization_element, Sa, domain_difference + sum_seq_dist,
                             domain_difference_anchor, log'))))))"

text \<open>Blending the anchor and non-anchor ratios (lines 498--525), before \<open>DDS = 1 - DDS\<close>.\<close>

definition blend_DDS :: "nat \<Rightarrow> nat \<Rightarrow> real \<Rightarrow> real \<Rightarrow> real \<Rightarrow> error + real \<times> real \<times> real" where
  "blend_DDS S Sa domain_difference domain_difference_anchor anchorboost =
     (if Sa \<noteq> 0 \<and> S \<noteq> 0 then
        bnd (py_div domain_difference (real S)) (\<lambda>DDS_non_anchor.
        bnd (py_div domain_difference_anchor (real Sa)) (\<lambda>DDS_anchor.
        bnd (py_div (real S) (real (S + Sa))) (\<lambda>non_anchor_prct.
        bnd (py_div (real Sa) (real (S + Sa))) (\<lambda>anchor_prct.
        bnd (py_div non_anchor_prct (anchor_prct * anchorboost + non_anchor_prct)) (\<lambda>non_anchor_weight.
        bnd (py_div (anchor_prct * anchorboost) (anchor_prct * anchorboost + non_anchor_prct)) (\<lambda>anchor_weight.
          Inr (non_anchor_weight * DDS_non_anchor + anchor_weight * DDS_anchor,
               DDS_non_anchor, DDS_anchor)))))))
      else if Sa = 0 then
        bnd (py_div domain_difference (real S)) (\<lambda>DDS_non_anchor.
          Inr (DDS_non_anchor, DDS_non_anchor, 0.0))
      else
        bnd (py_div domain_difference_anchor (real Sa)) (\<lambda>DDS_anchor.
          Inr (DDS_anchor, 0.0, DDS_anchor)))"

text \<open>Adjacency index (lines 531--543); \<^verbatim>\<open>tuple(sorted([x, y]))\<close> is \<open>sorted_pair x y\<close>.\<close>

definition sorted_pair :: "string \<Rightarrow> string \<Rightarrow> string \<times> string" where
  "sorted_pair x y = (if x \<le> y then (x, y) else (y, x))"

definition adjacent_pairs :: "domain list \<Rightarrow> (domain \<times> domain) list" where
  "adjacent_pairs domlist =
     remdups (map (\<lambda>l. sorted_pair (domlist ! l) (domlist ! (l + 1))) [0..<length domlist - 1])"

definition adjacency_index :: "domain list \<Rightarrow> domain list \<Rightarrow> error + real" where
  "adjacency_index A_domlist B_domlist =
     (if length A_domlist < 2 \<or> length B_domlist < 2 then Inr 0.0
      else
        (let setA_pairs = adjacent_pairs A_domlist;
             setB_pairs = adjacent_pairs B_domlist
         in py_div (real (length (filter (\<lambda>p. p \<in> set setB_pairs) setA_pairs)))
                   (real (length (remdups (setA_pairs @ setB_pairs))))))"

definition cluster_distance ::
  "tables \<Rightarrow> bgc \<Rightarrow> bgc \<Rightarrow> domain list \<Rightarrow> domain list \<Rightarrow> string \<Rightarrow> error + scores \<times> diag list" where
  "cluster_distance env a b a_domlist b_domlist bgc_class =
     bnd (py_get bgc_class_weight bgc_class) (\<lambda>(Jaccardw, DDSw, AIw, anchorboost).
       let setA = remdups a_domlist;
           setB = remdups b_domlist;
           intersect = filter (\<lambda>d. d \<in> set setB) setA
       in if length intersect = 0 then unrelated env a b setA setB
          else
            bnd (slices env a b a_domlist b_domlist) (\<lambda>fr.
            bnd (py_div (real (length (f_intersect fr)))
                   (real_of_int (int (length (f_setA fr)) + int (length (f_setB fr))
                                 - int (length (f_intersect fr))))) (\<lambda>Jaccard.
            bnd (foldM (unshared_step env (f_A fr) (f_B fr))
                   (filter (\<lambda>d. d \<notin> set (f_setB fr)) (f_setA fr)
                    @ filter (\<lambda>d. d \<notin> set (f_setA fr)) (f_setB fr)) (0, 0))
              (\<lambda>(domain_difference, domain_difference_anchor).
            bnd (foldM (shared_step env fr) (f_intersect fr)
                   (domain_difference, domain_difference_anchor,
                    real domain_difference, real domain_difference_anchor, []))
              (\<lambda>(S, Sa, domain_difference, domain_difference_anchor, log).
            bnd (blend_DDS S Sa domain_difference domain_difference_anchor anchorboost)
              (\<lambda>(DDS0, DDS_non_anchor, DDS_anchor).
            bnd (adjacency_index (f_A_domlist fr) (f_B_domlist fr)) (\<lambda>AI.
              let DDS = 1 - DDS0;
                  Distance = 1 - (Jaccardw * Jaccard) - (DDSw * DDS) - (AIw * AI)
              in Inr (\<lparr>Distance = (if Distance < 0.0 then 0.0 else Distance),
                       Jaccard = Jaccard, DDS = DDS, AI = AI,
                       DDS_non_anchor = DDS_non_anchor, DDS_anchor = DDS_anchor,
                       S_nonanchor = S, S_anchor = Sa\<rparr>,
                      log @ (if Distance < 0.0 \<and> Distance < - 0.000001
                             then [NegativeDistance (f_A fr) (f_B fr)] else [])))))))))"

subsection \<open>\<^verbatim>\<open>generate_dist_matrix\<close> (lines 204--257)\<close>

text \<open>
  A network row is a Python list of strings, floats, \<^verbatim>\<open>float("inf")\<close> and ints.
\<close>

datatype cell = CStr string | CNum real | CInf | CInt int

text \<open>
  \<^verbatim>\<open>
  if dist == 0:
      logscore = float("inf")
  else:
      logscore = 0
      try:
          logscore = log(dist, 2)
          logscore = -1.0*logscore
      except ValueError:
          print("ERROR: Unexpected issue when calculating logscore.")
  \<close>
  \<^verbatim>\<open>math.log\<close> raises ValueError exactly for a non-positive argument.
\<close>

definition logscore :: "bgc \<Rightarrow> bgc \<Rightarrow> real \<Rightarrow> cell \<times> diag list" where
  "logscore cluster1 cluster2 distance =
     (if distance = 0 then (CInf, [])
      else if 0 < distance then (CNum (- 1.0 * log 2 distance), [])
      else (CInt 0, [LogscoreError cluster1 cluster2]))"

definition domain_lists :: "tables \<Rightarrow> bgc \<Rightarrow> bgc \<Rightarrow> error + domain list \<times> domain list" where
  "domain_lists env cluster1 cluster2 =
     (case (DomainList env cluster1, DomainList env cluster2) of
        (Some domain_list_A, Some domain_list_B) \<Rightarrow> Inr (domain_list_A, domain_list_B)
      | _ \<Rightarrow>
          bnd (get_domain_list env cluster1) (\<lambda>domain_list_A.
          bnd (get_domain_list env cluster2) (\<lambda>domain_list_B.
            Inr (domain_list_A, domain_list_B))))"

definition generate_dist_matrix :: "tables \<Rightarrow> bgc \<times> bgc \<times> string \<Rightarrow> error + cell list \<times> diag list" where
  "generate_dist_matrix env parms =
     (let cluster1 = fst parms; cluster2 = fst (snd parms); bgc_class = snd (snd parms)
      in bnd (domain_lists env cluster1 cluster2) (\<lambda>(domain_list_A, domain_list_B).
           if length domain_list_A = 0 \<or> length domain_list_B = 0 then
             bnd (py_get (group_dct env) cluster1) (\<lambda>group1.
             bnd (py_get (group_dct env) cluster2) (\<lambda>group2.
               Inr ([CStr cluster1, CStr cluster2, CStr (fst group1), CStr (snd group1),
                     CStr (fst group2), CStr (snd group2), CStr ''0.0'', CStr ''1.0'',
                     CStr ''0.0'', CStr ''0.0'', CStr ''0.0'', CStr ''0.0'', CStr ''1.0'',
                     CStr ''1.0'', CStr ''1'', CStr ''1''],
                    DistanceWarning cluster1 cluster2
                    # (if length domain_list_A = 0 \<and> length domain_list_B = 0
                       then [NoneHaveDomains] else [HasNoDomains cluster2]))))
           else
             bnd (cluster_distance env cluster1 cluster2 domain_list_A domain_list_B bgc_class)
               (\<lambda>(r, log).
             let (score, log') = logscore cluster1 cluster2 (Distance r)
             in bnd (py_get (group_dct env) cluster1) (\<lambda>group1.
                bnd (py_get (group_dct env) cluster2) (\<lambda>group2.
                  Inr ([CStr cluster1, CStr cluster2, CStr bgc_class, CStr (fst group1),
                        CStr (snd group1), CStr (fst group2), CStr (snd group2), score,
                        CNum (Distance r), CNum ((1 - Distance r)\<^sup>2), CNum (Jaccard r),
                        CNum (DDS r), CNum (AI r), CNum (DDS_non_anchor r),
                        CNum (DDS_anchor r), CInt (int (S_nonanchor r)),
                        CInt (int (S_anchor r))],
                       log @ log'))))))"

subsection \<open>\<^verbatim>\<open>generate_network\<close> (lines 181--201)\<close>

text \<open>
  \<^verbatim>\<open>pool.map\<close> returns the rows in the order of the pairs and re-raises an exception of
  a worker in the caller. The dict is filled row by row:
  \<^verbatim>\<open>network_matrix_dict[row[0], row[1], row[2]] = row[3:]\<close>.
\<close>

type_synonym network_matrix = "cell \<times> cell \<times> cell \<rightharpoonup> cell list"

definition store_row :: "cell list \<Rightarrow> network_matrix \<Rightarrow> error + network_matrix" where
  "store_row row network_matrix_dict =
     (case row of
        c0 # c1 # c2 # rest \<Rightarrow> Inr (network_matrix_dict((c0, c1, c2) \<mapsto> rest))
      | _ \<Rightarrow> Inl IndexError)"

definition generate_network :: "tables \<Rightarrow> (bgc \<times> bgc \<times> string) list \<Rightarrow> error + network_matrix" where
  "generate_network env cluster_pairs =
     bnd (mapM (generate_dist_matrix env) cluster_pairs) (\<lambda>network_matrix.
       foldM store_row (map fst network_matrix) Map.empty)"

subsection \<open>Vocabulary of the statements\<close>

text \<open>The two kinds of alignment columns the identity loop counts.\<close>

definition same_residue :: "string \<Rightarrow> string \<Rightarrow> nat \<Rightarrow> bool" where
  "same_residue a b p = (a ! p = b ! p \<and> a ! p \<noteq> CHR ''-'')"

definition both_gap :: "string \<Rightarrow> string \<Rightarrow> nat \<Rightarrow> bool" where
  "both_gap a b p = (a ! p = CHR ''-'' \<and> b ! p = CHR ''-'')"

definition is_mismatch :: "diag \<Rightarrow> bool" where
  "is_mismatch x = (case x of SeqLengthMismatch _ \<Rightarrow> True | _ \<Rightarrow> False)"


definition row_key :: "cell list \<Rightarrow> cell \<times> cell \<times> cell" where
  "row_key row = (row ! 0, row ! 1, row ! 2)"

definition env2 :: tables where
  "env2 = \<lparr>DomainList = map_of [(''a'', [''PF2'']), (''b'', [''PF2''])],
           BGCs = map_of [(''a'', map_of [(''PF2'', [''a1''])]),
                          (''b'', map_of [(''PF2'', [''b1''])])],
           AlignedDomainSequences = map_of [(''a1'', ''AAAC''), (''b1'', ''AAAG'')],
           anchor_domains = [],
           group_dct = map_of [(''a'', (''nrps'', ''cluster a'')), (''b'', (''nrps'', ''cluster b''))],
           metagenomic = False,
           domain_fasta = Map.empty,
           globalds = (\<lambda>x y. []),
           get_domain_list = (\<lambda>c. Inl IOError)\<rparr>"


definition env4 :: tables where
  "env4 = \<lparr>DomainList = map_of [(''a'', [''PF1'']), (''b'', [''PF3'']), (''c'', [''PF1''])],
           BGCs = map_of [(''a'', map_of [(''PF1'', [''a1''])]),
                          (''b'', map_of [(''PF3'', [''b1''])]),
                          (''c'', map_of [(''PF1'', [''c1''])])],
           AlignedDomainSequences = Map.empty,
           anchor_domains = [],
           group_dct = map_of [(''a'', (''nrps'', ''cluster a'')), (''b'', (''nrps'', ''cluster b'')),
                               (''c'', (''nrps'', ''cluster c''))],
           metagenomic = False,
           domain_fasta = Map.empty,
           globalds = (\<lambda>x y. []),
           get_domain_list = (\<lambda>c. Inl IOError)\<rparr>"

subsection \<open>Result tables of the partitions (main program, lines 1354--1516)\<close>

text \<open>
  The options of the run that steer the partitions. \<^verbatim>\<open>sort_bgc\<close> (module
  \<^verbatim>\<open>functions\<close>) maps a product string to a class name; it is a field of the record.
\<close>

record options =
  options_all :: bool
  options_samples :: bool
  options_mix :: bool
  options_classify :: bool
  hybrids :: bool
  valid_classes :: "string list"
  sort_bgc :: "string \<Rightarrow> string"
  cutoffs :: "real list"

text \<open>
  The dicts the main program keeps between partitions, and the calls of
  \<^verbatim>\<open>write_network_matrix\<close> made so far (file label, cutoff, table passed).
  \<^verbatim>\<open>BGC_classes\<close> is a \<^verbatim>\<open>defaultdict(list)\<close>, kept as an association list.
\<close>

record run_state =
  network_matrix_mix :: network_matrix
  network_matrix_complete :: network_matrix
  network_matrix_sample :: network_matrix
  BGC_classes :: "(string \<times> bgc list) list"
  written :: "(string \<times> real \<times> network_matrix) list"

text \<open>\<^verbatim>\<open>set(map(tuple, map(sorted, combinations(xs, 2))))\<close>\<close>

fun combinations2 :: "'a list \<Rightarrow> ('a \<times> 'a) list" where
  "combinations2 [] = []"
| "combinations2 (x # xs) = map (Pair x) xs @ combinations2 xs"

definition pairs_of :: "bgc list \<Rightarrow> (bgc \<times> bgc) list" where
  "pairs_of xs = remdups (map (\<lambda>(x, y). sorted_pair x y) (combinations2 xs))"

text \<open>\<^verbatim>\<open>BGC_classes[k].append(v)\<close> and the substring test \<^verbatim>\<open>p in s\<close>.\<close>

definition dd_append :: "string \<Rightarrow> bgc \<Rightarrow> (string \<times> bgc list) list \<Rightarrow> (string \<times> bgc list) list" where
  "dd_append k v d =
     (if k \<in> set (map fst d) then map (\<lambda>(k', vs). if k' = k then (k', vs @ [v]) else (k', vs)) d
      else d @ [(k, [v])])"

definition substring_in :: "string \<Rightarrow> string \<Rightarrow> bool" where
  "substring_in p s = list_ex (\<lambda>i. take (length p) (drop i s) = p) [0..<Suc (length s)]"

text \<open>Sorting clusters into classes (lines 1385--1403 and 1473--1491).\<close>

definition classify_cluster ::
  "tables \<Rightarrow> options \<Rightarrow> bgc \<Rightarrow> (string \<times> bgc list) list \<Rightarrow> error + (string \<times> bgc list) list" where
  "classify_cluster env opts cluster classes =
     bnd (py_get (group_dct env) cluster) (\<lambda>group.
       let product = fst group;
           predicted_class = sort_bgc opts product;
           c1 = (if predicted_class \<in> set (valid_classes opts)
                 then dd_append predicted_class cluster classes else classes);
           c2 = (if hybrids opts \<and> predicted_class = ''PKS-NRP_Hybrids'' then
                   (let h1 = (if ''nrps'' \<in> set (valid_classes opts)
                              then dd_append ''NRPS'' cluster c1 else c1);
                        h2 = (if substring_in ''t1pks'' product \<and> ''pksi'' \<in> set (valid_classes opts)
                              then dd_append ''PKSI'' cluster h1 else h1);
                        h3 = (if \<not> substring_in ''t1pks'' product \<and> ''pksother'' \<in> set (valid_classes opts)
                              then dd_append ''PKSother'' cluster h2 else h2)
                    in h3)
                 else c1)
       in Inr c2)"

definition sort_clusters ::
  "tables \<Rightarrow> options \<Rightarrow> bgc list \<Rightarrow> (string \<times> bgc list) list \<Rightarrow> error + (string \<times> bgc list) list" where
  "sort_clusters env opts clusters classes =
     foldM (classify_cluster env opts) clusters (map (\<lambda>(k, _). (k, [])) classes)"

definition write_all :: "options \<Rightarrow> string \<Rightarrow> network_matrix \<Rightarrow> run_state \<Rightarrow> run_state" where
  "write_all opts label network_matrix st =
     st\<lparr>written := written st @ map (\<lambda>cutoff. (label, cutoff, network_matrix)) (cutoffs opts)\<rparr>"

text \<open>The analysis of all input files (lines 1356--1423).\<close>

definition all_class_step ::
  "tables \<Rightarrow> options \<Rightarrow> string \<times> bgc list \<Rightarrow> run_state \<Rightarrow> error + run_state" where
  "all_class_step env opts entry st =
     (let bgc_class = fst entry; members = snd entry
      in if length members > 1 then
           bnd (generate_network env (map (\<lambda>(x, y). (x, y, bgc_class)) (pairs_of members)))
             (\<lambda>network_matrix.
                let st' = write_all opts (''all_'' @ bgc_class) network_matrix st
                in Inr (if options_samples opts
                        then st'\<lparr>network_matrix_complete := network_matrix_complete st' ++ network_matrix\<rparr>
                        else st'))
         else Inr st)"

definition networks_all :: "tables \<Rightarrow> options \<Rightarrow> bgc list \<Rightarrow> run_state \<Rightarrow> error + run_state" where
  "networks_all env opts clusters st =
     (if options_all opts then
        bnd (if options_mix opts then
               bnd (generate_network env (map (\<lambda>(x, y). (x, y, ''mix'')) (pairs_of clusters)))
                 (\<lambda>network_matrix_mix'.
                    let st' = write_all opts ''all_mix'' network_matrix_mix' st
                    in Inr (st'\<lparr>network_matrix_mix :=
                                  (if \<not> options_samples opts then Map.empty
                                   else network_matrix_mix')\<rparr>))
             else Inr st)
          (\<lambda>st.
             if options_classify opts then
               bnd (sort_clusters env opts clusters (BGC_classes st)) (\<lambda>classes.
                 foldM (all_class_step env opts) classes (st\<lparr>BGC_classes := classes\<rparr>))
             else Inr st)
      else Inr st)"

text \<open>
  The analysis of one sample (lines 1437--1516). With the all-records analysis done, the
  table of the sample is filled by copying keys:
  \<^verbatim>\<open>network_matrix_sample[pair[0], pair[1], "mix"] = network_matrix_mix[pair[0], pair[1], "mix"]\<close>.
\<close>

definition copy_pair ::
  "network_matrix \<Rightarrow> string \<Rightarrow> bgc \<times> bgc \<Rightarrow> network_matrix \<Rightarrow> error + network_matrix" where
  "copy_pair source bgc_class pair network_matrix_sample' =
     bnd (py_get source (CStr (fst pair), CStr (snd pair), CStr bgc_class)) (\<lambda>v.
       Inr (network_matrix_sample'((CStr (fst pair), CStr (snd pair), CStr bgc_class) \<mapsto> v)))"

definition sample_mix ::
  "tables \<Rightarrow> options \<Rightarrow> string \<Rightarrow> bgc list \<Rightarrow> run_state \<Rightarrow> error + run_state" where
  "sample_mix env opts sample sampleClusters st =
     (let pairs = pairs_of sampleClusters
      in bnd (if options_all opts \<and> options_mix opts then
                bnd (foldM (copy_pair (network_matrix_mix st) ''mix'') pairs (network_matrix_sample st))
                  (\<lambda>network_matrix_sample'.
                     Inr (st\<lparr>network_matrix_sample := network_matrix_sample',
                             network_matrix_mix := Map.empty\<rparr>))
              else
                bnd (generate_network env (map (\<lambda>(x, y). (x, y, ''mix'')) pairs))
                  (\<lambda>network_matrix_sample'.
                     Inr (st\<lparr>network_matrix_sample := network_matrix_sample'\<rparr>)))
           (\<lambda>st. Inr (write_all opts (''sample_'' @ sample @ ''_mix'') (network_matrix_sample st) st)))"

definition sample_class_step ::
  "tables \<Rightarrow> options \<Rightarrow> string \<Rightarrow> string \<times> bgc list \<Rightarrow> run_state \<Rightarrow> error + run_state" where
  "sample_class_step env opts sample entry st =
     (let bgc_class = fst entry; members = snd entry
      in if length members > 1 then
           (let pairs = pairs_of members
            in bnd (if options_all opts \<and> options_classify opts then
                      foldM (copy_pair (network_matrix_complete st) bgc_class) pairs Map.empty
                    else generate_network env (map (\<lambda>(x, y). (x, y, bgc_class)) pairs))
                 (\<lambda>network_matrix_sample'.
                    Inr (write_all opts (''sample_'' @ sample @ ''_'' @ bgc_class)
                           network_matrix_sample'
                           (st\<lparr>network_matrix_sample := network_matrix_sample'\<rparr>))))
         else Inr st)"

definition sample_step ::
  "tables \<Rightarrow> options \<Rightarrow> string \<times> bgc list \<Rightarrow> run_state \<Rightarrow> error + run_state" where
  "sample_step env opts entry st =
     (let sample = fst entry; sampleClusters = snd entry
      in if length sampleClusters = 1 then Inr st
         else
           bnd (if options_mix opts then sample_mix env opts sample sampleClusters st else Inr st)
             (\<lambda>st.
                if options_classify opts then
                  bnd (sort_clusters env opts sampleClusters (BGC_classes st)) (\<lambda>classes.
                    foldM (sample_class_step env opts sample) classes (st\<lparr>BGC_classes := classes\<rparr>))
                else Inr st))"

definition networks_samples ::
  "tables \<Rightarrow> options \<Rightarrow> (string \<times> bgc list) list \<Rightarrow> run_state \<Rightarrow> error + run_state" where
  "networks_samples env opts sampleDict st =
     (if options_samples opts then
        (let st0 = st\<lparr>network_matrix_sample := Map.empty\<rparr>
         in if length sampleDict = 1 \<and> options_all opts then Inr st0
            else foldM (sample_step env opts) sampleDict st0)
      else Inr st)"

definition networks_main ::
  "tables \<Rightarrow> options \<Rightarrow> bgc list \<Rightarrow> (string \<times> bgc list) list \<Rightarrow> error + run_state" where
  "networks_main env opts clusters sampleDict =
     bnd (networks_all env opts clusters
            \<lparr>network_matrix_mix = Map.empty, network_matrix_complete = Map.empty,
             network_matrix_sample = Map.empty, BGC_classes = [], written = []\<rparr>)
       (networks_samples env opts sampleDict)"

text \<open>A run on three clusters, each with one domain of its own, in two samples.\<close>

definition env5 :: tables where
  "env5 = \<lparr>DomainList = map_of [(''a'', [''PF1'']), (''b'', [''PF2'']), (''c'', [''PF3''])],
           BGCs = map_of [(''a'', map_of [(''PF1'', [''a1''])]),
                          (''b'', map_of [(''PF2'', [''b1''])]),
                          (''c'', map_of [(''PF3'', [''c1''])])],
           AlignedDomainSequences = map_of [(''a1'', ''AC''), (''b1'', ''AC''), (''c1'', ''AC'')],
           anchor_domains = [],
           group_dct = map_of [(''a'', (''nrps'', ''cluster a'')), (''b'', (''nrps'', ''cluster b'')),
                               (''c'', (''nrps'', ''cluster c''))],
           metagenomic = False,
           domain_fasta = Map.empty,
           globalds = (\<lambda>x y. []),
           get_domain_list = (\<lambda>c. Inl IOError)\<rparr>"

definition opts5 :: options where
  "opts5 = \<lparr>options_all = True, options_samples = True, options_mix = True,
            options_classify = False, hybrids = False, valid_classes = [],
            sort_bgc = (\<lambda>product. ''Others''), cutoffs = [1]\<rparr>"

definition unrelated_row :: "bgc \<Rightarrow> bgc \<Rightarrow> cell list" where
  "unrelated_row x y =
     [CStr x, CStr y, CStr ''mix'', CStr ''nrps'', CStr (''cluster '' @ x), CStr ''nrps'',
      CStr (''cluster '' @ y), CNum 0, CNum 1, CNum 0, CNum 0, CNum 0, CNum 0, CNum 1, CNum 1,
      CInt 2, CInt 0]"




subsection \<open>Notions used for the symmetry of the evaluator\<close>








section \<open>Properties\<close>

subsection \<open>Cutoff list\<close>

lemma filter_pos_remove1:
  "\<not> 0 < (x::real) \<Longrightarrow> filter (\<lambda>y. 0 < y) (remove1 x xs) = filter (\<lambda>y. 0 < y) xs"
  by (induction xs) auto

lemma cutoff_filter_pos:
  "filter (\<lambda>y. 0 < y) (cutoff_filter i xs) = filter (\<lambda>y. 0 < y) xs"
proof (induction i xs rule: cutoff_filter.induct)
  case (1 i xs)
  show ?case
  proof (cases "i < length xs")
    case False
    then show ?thesis by (subst cutoff_filter.simps) simp
  next
    case True
    show ?thesis
    proof (cases "xs ! i \<le> 0")
      case le: True
      have "filter (\<lambda>y. 0 < y) (cutoff_filter (Suc i) (remove1 (xs ! i) xs))
            = filter (\<lambda>y. 0 < y) (remove1 (xs ! i) xs)"
        using "1.IH"(1) True le by simp
      also have "\<dots> = filter (\<lambda>y. 0 < y) xs"
        using le by (intro filter_pos_remove1) simp
      finally show ?thesis
        using True le by (subst cutoff_filter.simps) simp
    next
      case gt: False
      then show ?thesis
        using "1.IH"(2) True by (subst cutoff_filter.simps) simp
    qed
  qed
qed

lemma cutoff_filter_subset: "set (cutoff_filter i xs) \<subseteq> set xs"
proof (induction i xs rule: cutoff_filter.induct)
  case (1 i xs)
  show ?case
  proof (cases "i < length xs")
    case False
    then show ?thesis by (subst cutoff_filter.simps) simp
  next
    case True
    show ?thesis
    proof (cases "xs ! i \<le> 0")
      case le: True
      have "set (cutoff_filter (Suc i) (remove1 (xs ! i) xs)) \<subseteq> set (remove1 (xs ! i) xs)"
        using "1.IH"(1) True le by simp
      also have "\<dots> \<subseteq> set xs" by (rule set_remove1_subset)
      finally show ?thesis
        using True le by (subst cutoff_filter.simps) simp
    next
      case gt: False
      then show ?thesis
        using "1.IH"(2) True by (subst cutoff_filter.simps) simp
    qed
  qed
qed

lemma bnd_Inr [simp]: "bnd (Inr x) f = f x"
  by (simp add: bnd_def)

lemma bnd_Inl [simp]: "bnd (Inl e) f = Inl e"
  by (simp add: bnd_def)

lemma bnd_eq_Inr: "bnd m f = Inr y \<longleftrightarrow> (\<exists>x. m = Inr x \<and> f x = Inr y)"
  by (cases m) simp_all

lemma bnd_eq_Inl: "bnd m f = Inl e \<longleftrightarrow> m = Inl e \<or> (\<exists>x. m = Inr x \<and> f x = Inl e)"
  by (cases m) simp_all

lemma fold_count_position:
  "fold (count_position a b) ps (m, g)
     = (m + length (filter (same_residue a b) ps), g + length (filter (both_gap a b) ps))"
  by (induction ps arbitrary: m g)
     (auto simp: count_position_def same_residue_def both_gap_def)

lemma matches_gaps_eq:
  "matches_gaps a b = (length (filter (same_residue a b) [0..<seq_length a b]),
                       length (filter (both_gap a b) [0..<seq_length a b]))"
  by (simp add: matches_gaps_def fold_count_position)

lemma seq_length_min: "seq_length a b = min (length a) (length b)"
  by (simp add: seq_length_def)

lemma filter_disjoint_le:
  "(\<And>x. P x \<Longrightarrow> \<not> Q x) \<Longrightarrow> length (filter P xs) + length (filter Q xs) \<le> length xs"
  by (induction xs) auto

lemma matches_plus_gaps_le:
  "length (filter (same_residue a b) ps) + length (filter (both_gap a b) ps) \<le> length ps"
  by (rule filter_disjoint_le) (auto simp: same_residue_def both_gap_def)

lemma length_filter_eq_iff: "length (filter P xs) = length xs \<longleftrightarrow> (\<forall>x\<in>set xs. P x)"
proof
  assume "length (filter P xs) = length xs"
  then show "\<forall>x\<in>set xs. P x"
    by (metis length_filter_less less_irrefl)
next
  assume "\<forall>x\<in>set xs. P x"
  then show "length (filter P xs) = length xs" by simp
qed

lemma gaps_lt_iff:
  "length (filter (both_gap a b) [0..<n]) < n \<longleftrightarrow> (\<exists>p<n. \<not> both_gap a b p)"
proof -
  have "length (filter (both_gap a b) [0..<n]) \<le> length [0..<n]" by (rule length_filter_le)
  moreover have "length (filter (both_gap a b) [0..<n]) = length [0..<n] \<longleftrightarrow> (\<forall>p\<in>set [0..<n]. both_gap a b p)"
    by (rule length_filter_eq_iff)
  ultimately show ?thesis by (auto simp: le_less)
qed

lemma sequence_distance_eq:
  "sequence_distance d a b =
     (let n = min (length a) (length b);
          m = length (filter (same_residue a b) [0..<n]);
          g = length (filter (both_gap a b) [0..<n])
      in if g = n then Inl ZeroDivisionError
         else Inr (1 - real m / (real n - real g),
                   if length a \<noteq> length b then [SeqLengthMismatch d] else []))"
  by (simp add: sequence_distance_def matches_gaps_eq seq_length_min py_div_def Let_def)

subsection \<open>The cost-matrix cell\<close>

text \<open>
  C6, as stated: the cell is \<open>1 - matches / aligned length\<close>. The source divides by the
  compared length minus the number of columns in which both sequences have a gap, so the
  statement fails as soon as such a column exists: for \<^verbatim>\<open>A-\<close> against \<^verbatim>\<open>A-\<close> the cell is
  \<open>0\<close>, not \<open>1 - 1/2\<close>.
\<close>

theorem cost_cell_counterexample:
  "fst (matches_gaps ''A-'' ''A-'') = 1 \<and> seq_length ''A-'' ''A-'' = 2
   \<and> sequence_distance ''PF00001'' ''A-'' ''A-'' = Inr (0, [])
   \<and> (0::real) \<noteq> 1 - 1 / 2"
  by code_simp

text \<open>
  C6, amended: with \<open>n\<close> the shorter of the two lengths, \<open>matches\<close> the number of
  positions below \<open>n\<close> with the same non-gap character and \<open>gaps\<close> the number of positions
  below \<open>n\<close> where both sequences have a gap, the cell is \<open>1 - matches / (n - gaps)\<close>;
  a warning is emitted exactly when the lengths differ; the computation raises
  ZeroDivisionError when \<open>gaps = n\<close> and does not fail otherwise.
\<close>

theorem cost_cell_value:
  "sequence_distance d a b =
     (let n = min (length a) (length b);
          matches = card {p. p < n \<and> a ! p = b ! p \<and> a ! p \<noteq> CHR ''-''};
          gaps = card {p. p < n \<and> a ! p = CHR ''-'' \<and> b ! p = CHR ''-''}
      in if gaps = n then Inl ZeroDivisionError
         else Inr (1 - real matches / (real n - real gaps),
                   if length a \<noteq> length b then [SeqLengthMismatch d] else []))"
proof -
  have m: "length (filter (same_residue a b) [0..<n]) = card {p. p < n \<and> a ! p = b ! p \<and> a ! p \<noteq> CHR ''-''}" for n
  proof -
    have "length (filter (same_residue a b) [0..<n]) = card (set (filter (same_residue a b) [0..<n]))"
      by (rule distinct_card [symmetric]) simp
    also have "set (filter (same_residue a b) [0..<n]) = {p. p < n \<and> a ! p = b ! p \<and> a ! p \<noteq> CHR ''-''}"
      by (auto simp: same_residue_def)
    finally show ?thesis .
  qed
  have g: "length (filter (both_gap a b) [0..<n]) = card {p. p < n \<and> a ! p = CHR ''-'' \<and> b ! p = CHR ''-''}" for n
  proof -
    have "length (filter (both_gap a b) [0..<n]) = card (set (filter (both_gap a b) [0..<n]))"
      by (rule distinct_card [symmetric]) simp
    also have "set (filter (both_gap a b) [0..<n]) = {p. p < n \<and> a ! p = CHR ''-'' \<and> b ! p = CHR ''-''}"
      by (auto simp: both_gap_def)
    finally show ?thesis .
  qed
  show ?thesis
    unfolding sequence_distance_eq m g ..
qed

subsection \<open>The denominator of the identity fraction\<close>

text \<open>
  C10, as stated: the denominator \<open>seq_length - gaps\<close> is always positive. It is zero when
  every compared column holds a gap in both sequences and when the compared slice is empty,
  and the division then raises ZeroDivisionError.
\<close>

theorem identity_division_counterexample:
  "sequence_distance ''PF00001'' ''--'' ''--'' = Inl ZeroDivisionError
   \<and> sequence_distance ''PF00001'' [] ''AC'' = Inl ZeroDivisionError"
  by code_simp

text \<open>
  C10, amended: the denominator \<open>seq_length - gaps\<close> is positive exactly when some
  compared column is not a gap in both sequences; exactly then the cell is computed, and it
  lies in \<open>[0, 1]\<close>; otherwise (empty slice, or only columns with two gaps) the division
  raises ZeroDivisionError.
\<close>

theorem identity_division_defined:
  "(int (seq_length a b) - int (snd (matches_gaps a b)) > 0
      \<longleftrightarrow> (\<exists>p < seq_length a b. \<not> (a ! p = CHR ''-'' \<and> b ! p = CHR ''-'')))
   \<and> ((\<exists>x w. sequence_distance d a b = Inr (x, w) \<and> 0 \<le> x \<and> x \<le> 1)
      \<longleftrightarrow> (\<exists>p < seq_length a b. \<not> (a ! p = CHR ''-'' \<and> b ! p = CHR ''-'')))
   \<and> (sequence_distance d a b = Inl ZeroDivisionError
      \<longleftrightarrow> \<not> (\<exists>p < seq_length a b. \<not> (a ! p = CHR ''-'' \<and> b ! p = CHR ''-'')))"
proof -
  define n where "n = seq_length a b"
  have n_min: "n = min (length a) (length b)" by (simp add: n_def seq_length_min)
  define m where "m = length (filter (same_residue a b) [0..<n])"
  define g where "g = length (filter (both_gap a b) [0..<n])"
  have gn: "g \<le> n" unfolding g_def by (metis length_filter_le length_upt diff_zero)
  have mg: "m + g \<le> n"
    unfolding m_def g_def using matches_plus_gaps_le [of a b "[0..<n]"] by simp
  have iff: "g < n \<longleftrightarrow> (\<exists>p<n. \<not> (a ! p = CHR ''-'' \<and> b ! p = CHR ''-''))"
    unfolding g_def using gaps_lt_iff [of a b n] by (simp add: both_gap_def)
  have sd: "sequence_distance d a b =
      (if g = n then Inl ZeroDivisionError
       else Inr (1 - real m / (real n - real g),
                 if length a \<noteq> length b then [SeqLengthMismatch d] else []))"
    unfolding sequence_distance_eq m_def g_def n_min by (simp add: Let_def)
  have range: "0 \<le> 1 - real m / (real n - real g) \<and> 1 - real m / (real n - real g) \<le> 1" if "g < n"
  proof -
    have pos: "0 < real n - real g" using that by simp
    have "real m \<le> real n - real g" using mg by linarith
    then have "real m / (real n - real g) \<le> 1" using pos by (simp add: divide_le_eq)
    moreover have "0 \<le> real m / (real n - real g)" using pos by simp
    ultimately show ?thesis by simp
  qed
  have c1: "int n - int (snd (matches_gaps a b)) > 0 \<longleftrightarrow> g < n"
    by (simp add: matches_gaps_eq g_def n_def)
  have c2: "(\<exists>x w. sequence_distance d a b = Inr (x, w) \<and> 0 \<le> x \<and> x \<le> 1) \<longleftrightarrow> g < n"
    using gn range by (auto simp: sd)
  have c3: "sequence_distance d a b = Inl ZeroDivisionError \<longleftrightarrow> \<not> g < n"
    using gn by (auto simp: sd)
  show ?thesis
    unfolding n_def [symmetric] using c1 c2 c3 iff by blast
qed

subsection \<open>The cutoff list\<close>

text \<open>
  C9, as stated: the list holds \<open>1.0\<close> and no value that is zero, negative or greater than
  \<open>1\<close>. The source has no upper bound: the option string \<^verbatim>\<open>1.5\<close> yields the list
  \<open>[1.5, 1.0]\<close>.
\<close>

theorem cutoff_list_counterexample:
  "cutoff_list decimal_float ''1.5'' = Inr [3 / 2, 1] \<and> \<not> (3 / 2 \<le> (1::real))"
  by code_simp

text \<open>
  C9, amended: whenever the option string parses, the cutoff list contains \<open>1.0\<close>, every
  value of the list is \<open>1.0\<close> or one of the supplied values, and its positive values are
  exactly the positive supplied values in their order (values greater than \<open>1\<close> included),
  followed by \<open>1.0\<close> when it was not supplied.
\<close>

theorem cutoff_list_contents:
  assumes "parse_cutoffs pfloat s = Inr xs"
  shows "\<exists>cs. cutoff_list pfloat s = Inr cs \<and> 1 \<in> set cs \<and> set cs \<subseteq> set xs \<union> {1}
           \<and> filter (\<lambda>c. 0 < c) cs = filter (\<lambda>c. 0 < c) xs @ (if 1 \<in> set xs then [] else [1])"
proof -
  define ys where "ys = cutoff_filter 0 xs"
  have pos: "filter (\<lambda>c. 0 < c) ys = filter (\<lambda>c. 0 < c) xs"
    unfolding ys_def by (rule cutoff_filter_pos)
  have sub: "set ys \<subseteq> set xs"
    unfolding ys_def by (rule cutoff_filter_subset)
  have "1 \<in> set (filter (\<lambda>c. 0 < c) ys) \<longleftrightarrow> 1 \<in> set (filter (\<lambda>c. 0 < c) xs)"
    using pos by simp
  then have one: "1 \<in> set ys \<longleftrightarrow> 1 \<in> set xs" by simp
  have cl: "cutoff_list pfloat s = Inr (if 1 \<in> set ys then ys else ys @ [1])"
    using assms by (simp add: cutoff_list_def ys_def Let_def)
  show ?thesis
  proof (cases "1 \<in> set xs")
    case True
    then show ?thesis using cl one pos sub by auto
  next
    case False
    then show ?thesis using cl one pos sub by auto
  qed
qed

theorem cutoff_list_contents_witness:
  "parse_cutoffs decimal_float ''0.3, 2'' = Inr [3 / 10, 2]
   \<and> (\<exists>cs. cutoff_list decimal_float ''0.3, 2'' = Inr cs \<and> 2 \<in> set cs \<and> 1 \<in> set cs)"
proof -
  have p: "parse_cutoffs decimal_float ''0.3, 2'' = Inr [3 / 10, 2]" by code_simp
  from cutoff_list_contents [OF p] obtain cs where
    c: "cutoff_list decimal_float ''0.3, 2'' = Inr cs" "1 \<in> set cs"
       "filter (\<lambda>c. 0 < c) cs = filter (\<lambda>c. 0 < c) [3 / 10, 2] @ (if 1 \<in> set [3 / 10, 2::real] then [] else [1])"
    by blast
  have "2 \<in> set (filter (\<lambda>c. 0 < c) cs)" unfolding c(3) by simp
  then have "2 \<in> set cs" by simp
  with p c show ?thesis by blast
qed

subsection \<open>Loops that may raise\<close>

text \<open>
  Generic facts about \<open>foldM\<close> and \<open>mapM\<close>.
\<close>

lemma foldM_invariant:
  assumes "foldM f xs s = Inr s'" and "P s"
    and "\<And>x t t'. x \<in> set xs \<Longrightarrow> P t \<Longrightarrow> f x t = Inr t' \<Longrightarrow> P t'"
  shows "P s'"
  using assms
proof (induction xs arbitrary: s)
  case Nil
  then show ?case by simp
next
  case (Cons x xs)
  from Cons.prems(1) obtain t where t: "f x s = Inr t" "foldM f xs t = Inr s'"
    by (auto simp: bnd_eq_Inr)
  have "P t" using Cons.prems(2,3) t(1) by auto
  then show ?case using Cons.IH [OF t(2)] Cons.prems(3) by auto
qed

lemma mapM_Inr:
  "mapM f xs = Inr ys \<Longrightarrow> list_all2 (\<lambda>x y. f x = Inr y) xs ys"
  by (induction xs arbitrary: ys) (auto simp: bnd_eq_Inr)


subsection \<open>Messages of the distance computation\<close>

text \<open>
  The loop over the shared domains only ever prints length-mismatch warnings.
\<close>

lemma sequence_distance_log:
  "sequence_distance d a b = Inr (x, w) \<Longrightarrow> \<forall>m\<in>set w. is_mismatch m"
  by (auto simp: sequence_distance_eq Let_def is_mismatch_def split: if_splits)

lemma matrix_cell_log:
  "matrix_cell env d la lb ba bb i j = Inr (x, w) \<Longrightarrow> \<forall>m\<in>set w. is_mismatch m"
  unfolding matrix_cell_def
  by (auto simp: bnd_eq_Inr dest: sequence_distance_log)

lemma fill_matrix_log:
  assumes "fill_matrix env d la lb ba bb na nb = Inr cells"
  shows "\<forall>m\<in>set (concat (map (\<lambda>row. concat (map snd row)) cells)). is_mismatch m"
proof -
  have rows: "list_all2 (\<lambda>i row. mapM (matrix_cell env d la lb ba bb i) [0..<nb] = Inr row) [0..<na] cells"
    using assms unfolding fill_matrix_def by (rule mapM_Inr)
  have "\<forall>m\<in>set (snd c). is_mismatch m" if "row \<in> set cells" "c \<in> set row" for row c
  proof -
    from rows that(1) obtain i where "mapM (matrix_cell env d la lb ba bb i) [0..<nb] = Inr row"
      by (auto simp: list_all2_conv_all_nth in_set_conv_nth)
    then have "list_all2 (\<lambda>j c. matrix_cell env d la lb ba bb i j = Inr c) [0..<nb] row"
      by (rule mapM_Inr)
    with that(2) obtain j where "matrix_cell env d la lb ba bb i j = Inr c"
      by (auto simp: list_all2_conv_all_nth in_set_conv_nth)
    then show ?thesis using matrix_cell_log [of env d la lb ba bb i j "fst c" "snd c"] by simp
  qed
  then show ?thesis by auto
qed

lemma shared_step_log:
  assumes "shared_step env fr d (S, Sa, dd, dda, lg) = Inr (S', Sa', dd', dda', lg')"
    and "\<forall>m\<in>set lg. is_mismatch m"
  shows "\<forall>m\<in>set lg'. is_mismatch m"
proof -
  from assms(1) obtain la lb cells where
    cells: "fill_matrix env d la lb (A_domain_sequence_slice_bottom fr d) (B_domain_sequence_slice_bottom fr d)
      (A_domain_sequence_slice_top fr d - A_domain_sequence_slice_bottom fr d)
      (B_domain_sequence_slice_top fr d - B_domain_sequence_slice_bottom fr d) = Inr cells"
    and lg': "lg' = lg @ concat (map (\<lambda>row. concat (map snd row)) cells)"
    unfolding shared_step_def by (auto simp: bnd_eq_Inr Let_def split: if_splits)
  show ?thesis
    unfolding lg' using assms(2) fill_matrix_log [OF cells] by auto
qed

lemma shared_loop_log:
  assumes "foldM (shared_step env fr) ds (S, Sa, dd, dda, []) = Inr (S', Sa', dd', dda', lg')"
  shows "\<forall>m\<in>set lg'. is_mismatch m"
proof -
  have "(\<lambda>(S, Sa, dd, dda, lg). \<forall>m\<in>set lg. is_mismatch m) (S', Sa', dd', dda', lg')"
  proof (rule foldM_invariant [OF assms])
    show "case (S, Sa, dd, dda, []) of (S, Sa, dd, dda, lg) \<Rightarrow> \<forall>m\<in>set lg. is_mismatch m" by simp
  next
    fix x t t'
    assume "case t of (S, Sa, dd, dda, lg) \<Rightarrow> \<forall>m\<in>set lg. is_mismatch m"
      and "shared_step env fr x t = Inr t'"
    then show "case t' of (S, Sa, dd, dda, lg) \<Rightarrow> \<forall>m\<in>set lg. is_mismatch m"
      by (cases t; cases t') (auto dest: shared_step_log)
  qed
  then show ?thesis by simp
qed

subsection \<open>The stages of \<^verbatim>\<open>cluster_distance\<close>\<close>

text \<open>
  A successful run of \<^verbatim>\<open>cluster_distance\<close> either took the early exit for unrelated pairs or
  went through every stage; the second lemma names the intermediate values.
\<close>

lemma cluster_distance_unrelated:
  assumes "cluster_distance env a b a_domlist b_domlist bgc_class = Inr (r, msgs)"
    and "filter (\<lambda>d. d \<in> set (remdups b_domlist)) (remdups a_domlist) = []"
  shows "unrelated env a b (remdups a_domlist) (remdups b_domlist) = Inr (r, msgs)"
  using assms
  by (auto simp: cluster_distance_def py_get_def Let_def bnd_eq_Inr split: option.splits)

lemma cluster_distance_related:
  assumes cd: "cluster_distance env a b a_domlist b_domlist bgc_class = Inr (r, msgs)"
    and w: "bgc_class_weight bgc_class = Some (Jaccardw, DDSw, AIw, anchorboost)"
    and ne: "filter (\<lambda>d. d \<in> set (remdups b_domlist)) (remdups a_domlist) \<noteq> []"
  obtains fr J dd0 dda0 S Sa dd dda slog DDS0 DDSna DDSa ai where
    "slices env a b a_domlist b_domlist = Inr fr"
    "py_div (real (length (f_intersect fr)))
       (real_of_int (int (length (f_setA fr)) + int (length (f_setB fr))
                     - int (length (f_intersect fr)))) = Inr J"
    "foldM (unshared_step env (f_A fr) (f_B fr))
       (filter (\<lambda>d. d \<notin> set (f_setB fr)) (f_setA fr)
        @ filter (\<lambda>d. d \<notin> set (f_setA fr)) (f_setB fr)) (0, 0) = Inr (dd0, dda0)"
    "foldM (shared_step env fr) (f_intersect fr) (dd0, dda0, real dd0, real dda0, [])
       = Inr (S, Sa, dd, dda, slog)"
    "blend_DDS S Sa dd dda anchorboost = Inr (DDS0, DDSna, DDSa)"
    "adjacency_index (f_A_domlist fr) (f_B_domlist fr) = Inr ai"
    "r = \<lparr>Distance = max 0 (1 - (Jaccardw * J + DDSw * (1 - DDS0) + AIw * ai)),
          Jaccard = J, DDS = 1 - DDS0, AI = ai, DDS_non_anchor = DDSna, DDS_anchor = DDSa,
          S_nonanchor = S, S_anchor = Sa\<rparr>"
    "msgs = slog @ (if 1 - (Jaccardw * J + DDSw * (1 - DDS0) + AIw * ai) < - 0.000001
                    then [NegativeDistance (f_A fr) (f_B fr)] else [])"
proof -
  have pg: "py_get bgc_class_weight bgc_class = Inr (Jaccardw, DDSw, AIw, anchorboost)"
    by (simp add: py_get_def w)
  have len: "(length (filter (\<lambda>d. d \<in> set (remdups b_domlist)) (remdups a_domlist)) = 0) = False"
    using ne by simp
  from cd obtain fr J dd0 dda0 S Sa dd dda slog DDS0 DDSna DDSa ai where
    a: "slices env a b a_domlist b_domlist = Inr fr"
    "py_div (real (length (f_intersect fr)))
       (real_of_int (int (length (f_setA fr)) + int (length (f_setB fr))
                     - int (length (f_intersect fr)))) = Inr J"
    "foldM (unshared_step env (f_A fr) (f_B fr))
       (filter (\<lambda>d. d \<notin> set (f_setB fr)) (f_setA fr)
        @ filter (\<lambda>d. d \<notin> set (f_setA fr)) (f_setB fr)) (0, 0) = Inr (dd0, dda0)"
    "foldM (shared_step env fr) (f_intersect fr) (dd0, dda0, real dd0, real dda0, [])
       = Inr (S, Sa, dd, dda, slog)"
    "blend_DDS S Sa dd dda anchorboost = Inr (DDS0, DDSna, DDSa)"
    "adjacency_index (f_A_domlist fr) (f_B_domlist fr) = Inr ai"
    and fin: "(Inr (\<lparr>Distance = (if 1 - (Jaccardw * J) - (DDSw * (1 - DDS0)) - (AIw * ai) < 0.0 then 0.0
                       else 1 - (Jaccardw * J) - (DDSw * (1 - DDS0)) - (AIw * ai)),
          Jaccard = J, DDS = 1 - DDS0, AI = ai, DDS_non_anchor = DDSna, DDS_anchor = DDSa,
          S_nonanchor = S, S_anchor = Sa\<rparr>,
        slog @ (if 1 - (Jaccardw * J) - (DDSw * (1 - DDS0)) - (AIw * ai) < 0.0
                    \<and> 1 - (Jaccardw * J) - (DDSw * (1 - DDS0)) - (AIw * ai) < - 0.000001
                    then [NegativeDistance (f_A fr) (f_B fr)] else [])) :: error + scores \<times> diag list)
          = Inr (r, msgs)"
    unfolding cluster_distance_def pg bnd_Inr prod.case Let_def len if_False
    unfolding bnd_eq_Inr split_paired_Ex prod.case
    by blast
  have eq: "1 - (Jaccardw * J) - (DDSw * (1 - DDS0)) - (AIw * ai)
            = 1 - (Jaccardw * J + DDSw * (1 - DDS0) + AIw * ai)"
    by simp
  show ?thesis
  proof (rule that [OF a])
    show "r = \<lparr>Distance = max 0 (1 - (Jaccardw * J + DDSw * (1 - DDS0) + AIw * ai)),
          Jaccard = J, DDS = 1 - DDS0, AI = ai, DDS_non_anchor = DDSna, DDS_anchor = DDSa,
          S_nonanchor = S, S_anchor = Sa\<rparr>"
      using fin unfolding eq by (auto simp: max_def)
    show "msgs = slog @ (if 1 - (Jaccardw * J + DDSw * (1 - DDS0) + AIw * ai) < - 0.000001
                    then [NegativeDistance (f_A fr) (f_B fr)] else [])"
      using fin unfolding eq by (auto split: if_splits)
  qed
qed

lemma distance_formula:
  assumes cd: "cluster_distance env a b a_domlist b_domlist bgc_class = Inr (r, msgs)"
    and w: "bgc_class_weight bgc_class = Some (Jaccardw, DDSw, AIw, anchorboost)"
  shows "Distance r = max 0 (1 - (Jaccardw * Jaccard r + DDSw * DDS r + AIw * AI r))
       \<and> ((\<exists>A B. NegativeDistance A B \<in> set msgs)
            \<longleftrightarrow> 1 - (Jaccardw * Jaccard r + DDSw * DDS r + AIw * AI r) < - 0.000001)"
proof (cases "filter (\<lambda>d. d \<in> set (remdups b_domlist)) (remdups a_domlist) = []")
  case True
  with cd have "unrelated env a b (remdups a_domlist) (remdups b_domlist) = Inr (r, msgs)"
    by (rule cluster_distance_unrelated)
  then obtain S Sa where "r = \<lparr>Distance = 1.0, Jaccard = 0.0, DDS = 0.0, AI = 0.0, DDS_non_anchor = 1.0,
             DDS_anchor = 1.0, S_nonanchor = S, S_anchor = Sa\<rparr>" "msgs = []"
    unfolding unrelated_def by (auto simp: bnd_eq_Inr)
  then show ?thesis by simp
next
  case False
  from cd w False obtain fr J dd0 dda0 S Sa dd dda slog DDS0 DDSna DDSa ai where
    loop: "foldM (shared_step env fr) (f_intersect fr) (dd0, dda0, real dd0, real dda0, [])
       = Inr (S, Sa, dd, dda, slog)"
    and r: "r = \<lparr>Distance = max 0 (1 - (Jaccardw * J + DDSw * (1 - DDS0) + AIw * ai)),
          Jaccard = J, DDS = 1 - DDS0, AI = ai, DDS_non_anchor = DDSna, DDS_anchor = DDSa,
          S_nonanchor = S, S_anchor = Sa\<rparr>"
    and msgs: "msgs = slog @ (if 1 - (Jaccardw * J + DDSw * (1 - DDS0) + AIw * ai) < - 0.000001
                    then [NegativeDistance (f_A fr) (f_B fr)] else [])"
    by (rule cluster_distance_related)
  have slog: "\<forall>m\<in>set slog. is_mismatch m"
    using loop by (rule shared_loop_log)
  then have no_neg: "NegativeDistance A B \<notin> set slog" for A B
    by (auto simp: is_mismatch_def)
  show ?thesis
    unfolding r msgs using no_neg by auto
qed

subsection \<open>The composite distance\<close>



subsection \<open>The network row\<close>

text \<open>
  The shape of a row of \<^verbatim>\<open>generate_dist_matrix\<close> for a pair with two non-empty domain lists.
\<close>

lemma cluster_distance_weights:
  "cluster_distance env a b la lb cls = Inr x \<Longrightarrow> \<exists>w. bgc_class_weight cls = Some w"
  by (auto simp: cluster_distance_def py_get_def bnd_eq_Inr split: option.splits)

lemma generate_dist_matrix_regular:
  assumes "generate_dist_matrix env (cluster1, cluster2, bgc_class) = Inr (row, msgs)"
    and "domain_lists env cluster1 cluster2 = Inr (la, lb)" and "la \<noteq> []" and "lb \<noteq> []"
  obtains r lg group1 group2 where
    "cluster_distance env cluster1 cluster2 la lb bgc_class = Inr (r, lg)"
    "group_dct env cluster1 = Some group1" "group_dct env cluster2 = Some group2"
    "row = [CStr cluster1, CStr cluster2, CStr bgc_class, CStr (fst group1),
            CStr (snd group1), CStr (fst group2), CStr (snd group2),
            fst (logscore cluster1 cluster2 (Distance r)),
            CNum (Distance r), CNum ((1 - Distance r)\<^sup>2), CNum (Jaccard r),
            CNum (DDS r), CNum (AI r), CNum (DDS_non_anchor r),
            CNum (DDS_anchor r), CInt (int (S_nonanchor r)), CInt (int (S_anchor r))]"
    "msgs = lg @ snd (logscore cluster1 cluster2 (Distance r))"
  using assms
  by (auto simp: generate_dist_matrix_def bnd_eq_Inr Let_def py_get_def case_prod_beta
           split: option.splits)

lemma log2_quarter: "log 2 (1 / 4) = - 2"
proof -
  have "log 2 (1 / 4) = log 2 (2 powr (- 2))"
    by (simp add: powr_minus_divide)
  also have "\<dots> = - 2" by (simp only: log_powr_cancel)
  finally show ?thesis .
qed

lemma env2_row:
  "generate_dist_matrix env2 (''a'', ''b'', ''NRPS'')
     = Inr ([CStr ''a'', CStr ''b'', CStr ''NRPS'', CStr ''nrps'', CStr ''cluster a'',
             CStr ''nrps'', CStr ''cluster b'', CNum 2, CNum (1 / 4), CNum (9 / 16),
             CNum 1, CNum (3 / 4), CNum 0, CNum (1 / 4), CNum 0, CInt 1, CInt 0], [])"
proof -
  have cd: "cluster_distance env2 ''a'' ''b'' [''PF2''] [''PF2''] ''NRPS''
     = Inr (\<lparr>Distance = 1 / 4, Jaccard = 1, DDS = 3 / 4, AI = 0, DDS_non_anchor = 1 / 4,
             DDS_anchor = 0, S_nonanchor = 1, S_anchor = 0\<rparr>, [])"
    by code_simp
  have dl: "domain_lists env2 ''a'' ''b'' = Inr ([''PF2''], [''PF2''])"
    by (simp add: domain_lists_def env2_def)
  have g1: "py_get (group_dct env2) ''a'' = Inr (''nrps'', ''cluster a'')"
    by (simp add: py_get_def env2_def)
  have g2: "py_get (group_dct env2) ''b'' = Inr (''nrps'', ''cluster b'')"
    by (simp add: py_get_def env2_def)
  show ?thesis
    by (simp add: generate_dist_matrix_def Let_def dl cd g1 g2 logscore_def log2_quarter
          power2_eq_square)
qed

text \<open>
  C2 at the failing input: two single-domain clusters at distance \<open>1/4\<close>. The docstring of
  \<^verbatim>\<open>generate_network\<close> (line 183) says the distances are saved as the log2 of the
  similarity, so the score field should be \<open>-log2 (1 - 1/4)\<close>. Lines 240--255 take the
  logarithm of the distance itself: the field is \<open>-log2 (1/4) = 2\<close>, which is not
  \<open>-log2 (3/4)\<close>.
\<close>

theorem logscore_of_distance:
  "generate_dist_matrix env2 (''a'', ''b'', ''NRPS'')
     = Inr ([CStr ''a'', CStr ''b'', CStr ''NRPS'', CStr ''nrps'', CStr ''cluster a'',
             CStr ''nrps'', CStr ''cluster b'', CNum 2, CNum (1 / 4), CNum (9 / 16),
             CNum 1, CNum (3 / 4), CNum 0, CNum (1 / 4), CNum 0, CInt 1, CInt 0], [])
   \<and> (2::real) \<noteq> - log 2 (1 - 1 / 4)"
proof -
  have "log 2 (1 / 4) < log 2 (3 / 4)"
    by (subst log_less_cancel_iff) simp_all
  then have "(2::real) \<noteq> - log 2 (1 - 1 / 4)" using log2_quarter by simp
  with env2_row show ?thesis by simp
qed

text \<open>
  What the code writes in general: for every computed pair with two non-empty domain lists
  the row holds the raw distance \<open>d \<ge> 0\<close> at index 8 and \<open>(1 - d)\<^sup>2\<close> at index 9, and the
  field at index 7 is \<open>-log2 d\<close> when \<open>0 < d\<close> and infinity when \<open>d = 0\<close>.
\<close>

lemma logscore_field:
  assumes "generate_dist_matrix env (cluster1, cluster2, bgc_class) = Inr (row, msgs)"
    and "domain_lists env cluster1 cluster2 = Inr (la, lb)" and "la \<noteq> []" and "lb \<noteq> []"
  shows "\<exists>d. row ! 8 = CNum d \<and> 0 \<le> d \<and> row ! 9 = CNum ((1 - d)\<^sup>2)
           \<and> (0 < d \<longrightarrow> row ! 7 = CNum (- log 2 d))
           \<and> (d = 0 \<longrightarrow> row ! 7 = CInf)"
proof -
  from assms obtain r lg group1 group2 where
    cd: "cluster_distance env cluster1 cluster2 la lb bgc_class = Inr (r, lg)"
    and row: "row = [CStr cluster1, CStr cluster2, CStr bgc_class, CStr (fst group1),
            CStr (snd group1), CStr (fst group2), CStr (snd group2),
            fst (logscore cluster1 cluster2 (Distance r)),
            CNum (Distance r), CNum ((1 - Distance r)\<^sup>2), CNum (Jaccard r),
            CNum (DDS r), CNum (AI r), CNum (DDS_non_anchor r),
            CNum (DDS_anchor r), CInt (int (S_nonanchor r)), CInt (int (S_anchor r))]"
    by (rule generate_dist_matrix_regular)
  from cluster_distance_weights [OF cd] obtain Jw Dw Aw boost where
    "bgc_class_weight bgc_class = Some (Jw, Dw, Aw, boost)"
    by (metis prod_cases4)
  from distance_formula [OF cd this] have "0 \<le> Distance r" by simp
  then show ?thesis
    unfolding row by (auto simp: logscore_def)
qed

lemma logscore_field_example:
  "(\<exists>d. [CStr ''a'', CStr ''b'', CStr ''NRPS'', CStr ''nrps'', CStr ''cluster a'',
             CStr ''nrps'', CStr ''cluster b'', CNum 2, CNum (1 / 4), CNum (9 / 16),
             CNum 1, CNum (3 / 4), CNum 0, CNum (1 / 4), CNum 0, CInt 1, CInt 0] ! 8 = CNum d
        \<and> 0 < d \<and> CNum 2 = CNum (- log 2 d))"
proof -
  have dl: "domain_lists env2 ''a'' ''b'' = Inr ([''PF2''], [''PF2''])"
    by (simp add: domain_lists_def env2_def)
  have g: "generate_dist_matrix env2 (''a'', ''b'', ''NRPS'')
     = Inr ([CStr ''a'', CStr ''b'', CStr ''NRPS'', CStr ''nrps'', CStr ''cluster a'',
             CStr ''nrps'', CStr ''cluster b'', CNum 2, CNum (1 / 4), CNum (9 / 16),
             CNum 1, CNum (3 / 4), CNum 0, CNum (1 / 4), CNum 0, CInt 1, CInt 0], [])"
    by (rule env2_row)
  from logscore_field [OF g dl] show ?thesis by auto
qed

subsection \<open>Pairs with an empty domain list\<close>





subsection \<open>Failures inside a batch\<close>

text \<open>
  Clusters \<open>a\<close> and \<open>c\<close> share the domain \<open>PF1\<close>, no aligned sequence is stored and the
  fasta file of the domain cannot be opened.
\<close>

lemma env4_pairs:
  "\<exists>row msgs. generate_dist_matrix env4 (''a'', ''b'', ''mix'') = Inr (row, msgs)"
  "generate_dist_matrix env4 (''a'', ''c'', ''mix'') = Inl IOError"
proof -
  have cd: "cluster_distance env4 ''a'' ''b'' [''PF1''] [''PF3''] ''mix''
     = Inr (\<lparr>Distance = 1, Jaccard = 0, DDS = 0, AI = 0, DDS_non_anchor = 1,
             DDS_anchor = 1, S_nonanchor = 2, S_anchor = 0\<rparr>, [])"
    by code_simp
  have dl: "domain_lists env4 ''a'' ''b'' = Inr ([''PF1''], [''PF3''])"
    by (simp add: domain_lists_def env4_def)
  have g1: "py_get (group_dct env4) ''a'' = Inr (''nrps'', ''cluster a'')"
    by (simp add: py_get_def env4_def)
  have g2: "py_get (group_dct env4) ''b'' = Inr (''nrps'', ''cluster b'')"
    by (simp add: py_get_def env4_def)
  show "\<exists>row msgs. generate_dist_matrix env4 (''a'', ''b'', ''mix'') = Inr (row, msgs)"
    by (simp add: generate_dist_matrix_def Let_def dl cd g1 g2 logscore_def)
  have cd': "cluster_distance env4 ''a'' ''c'' [''PF1''] [''PF1''] ''mix'' = Inl IOError"
    by code_simp
  have dl': "domain_lists env4 ''a'' ''c'' = Inr ([''PF1''], [''PF1''])"
    by (simp add: domain_lists_def env4_def)
  show "generate_dist_matrix env4 (''a'', ''c'', ''mix'') = Inl IOError"
    by (simp add: generate_dist_matrix_def Let_def dl' cd')
qed

text \<open>
  C4, as stated: a failure of one pair is confined to that pair and the other pairs of the
  batch still get their result. In the batch \<open>[(a, b), (a, c)]\<close> the pair \<open>(a, b)\<close>
  evaluates, the pair \<open>(a, c)\<close> raises IOError, and \<^verbatim>\<open>generate_network\<close> raises IOError:
  no table is returned.
\<close>

theorem batch_failure_counterexample:
  "(\<exists>row msgs. generate_dist_matrix env4 (''a'', ''b'', ''mix'') = Inr (row, msgs))
   \<and> generate_dist_matrix env4 (''a'', ''c'', ''mix'') = Inl IOError
   \<and> generate_network env4 [(''a'', ''b'', ''mix''), (''a'', ''c'', ''mix'')] = Inl IOError"
proof -
  from env4_pairs have "generate_network env4 [(''a'', ''b'', ''mix''), (''a'', ''c'', ''mix'')] = Inl IOError"
    by (auto simp: generate_network_def)
  with env4_pairs show ?thesis by simp
qed

text \<open>
  Further facts about \<open>mapM\<close> and about storing rows.
\<close>

lemma mapM_Inl:
  "mapM f xs = Inl e \<Longrightarrow> \<exists>x\<in>set xs. f x = Inl e"
  by (induction xs) (auto simp: bnd_eq_Inl)

lemma mapM_total:
  "(\<forall>x\<in>set xs. \<exists>y. f x = Inr y) \<Longrightarrow> \<exists>ys. mapM f xs = Inr ys"
  by (induction xs) auto

lemma mapM_Inr_set:
  assumes "mapM f xs = Inr ys"
  shows "(\<forall>x\<in>set xs. \<exists>y\<in>set ys. f x = Inr y) \<and> (\<forall>y\<in>set ys. \<exists>x\<in>set xs. f x = Inr y)"
  using mapM_Inr [OF assms]
  by (induction rule: list_all2_induct) auto

lemma generate_dist_matrix_row_length:
  "generate_dist_matrix env p = Inr (row, msgs) \<Longrightarrow> 3 \<le> length row"
  by (auto simp: generate_dist_matrix_def bnd_eq_Inr Let_def case_prod_beta split: if_splits)

lemma store_row_ok:
  "3 \<le> length row \<Longrightarrow> store_row row m = Inr (m(row_key row \<mapsto> drop 3 row))"
  by (cases row rule: list.exhaust; simp add: store_row_def row_key_def split: list.splits)
     (auto simp: store_row_def row_key_def split: list.splits)

lemma foldM_store_row:
  "\<forall>row\<in>set rows. 3 \<le> length row \<Longrightarrow>
   foldM store_row rows m = Inr (fold (\<lambda>row m. m(row_key row \<mapsto> drop 3 row)) rows m)"
  by (induction rows arbitrary: m) (auto simp: store_row_ok)

lemma fold_store_lookup:
  "row \<in> set rows \<Longrightarrow>
   \<exists>row'\<in>set rows. row_key row' = row_key row
      \<and> fold (\<lambda>row m. m(row_key row \<mapsto> drop 3 row)) rows m (row_key row) = Some (drop 3 row')"
proof (induction rows rule: rev_induct)
  case Nil
  then show ?case by simp
next
  case (snoc x xs)
  show ?case
  proof (cases "row_key x = row_key row")
    case True
    then show ?thesis by auto
  next
    case False
    with snoc.prems have "row \<in> set xs" by auto
    from snoc.IH [OF this] False show ?thesis by auto
  qed
qed

text \<open>
  C4, amended: \<^verbatim>\<open>generate_network\<close> returns a table exactly when every pair of the batch
  evaluates (an exception raised for one pair propagates and aborts the batch); when it
  returns, the table holds under the key of every pair's row the result of a pair of the
  batch with that key.
\<close>

theorem batch_all_or_nothing:
  "((\<exists>network_matrix. generate_network env cluster_pairs = Inr network_matrix)
      \<longleftrightarrow> (\<forall>p\<in>set cluster_pairs. \<exists>row msgs. generate_dist_matrix env p = Inr (row, msgs)))
   \<and> (\<forall>network_matrix p row msgs.
        generate_network env cluster_pairs = Inr network_matrix \<longrightarrow> p \<in> set cluster_pairs
        \<longrightarrow> generate_dist_matrix env p = Inr (row, msgs)
        \<longrightarrow> (\<exists>q row' msgs'. q \<in> set cluster_pairs
               \<and> generate_dist_matrix env q = Inr (row', msgs')
               \<and> row_key row' = row_key row
               \<and> network_matrix (row_key row) = Some (drop 3 row')))"
proof -
  have store: "foldM store_row (map fst rs) Map.empty
        = Inr (fold (\<lambda>row m. m(row_key row \<mapsto> drop 3 row)) (map fst rs) Map.empty)"
    if "mapM (generate_dist_matrix env) cluster_pairs = Inr rs" for rs
  proof (rule foldM_store_row, rule ballI)
    fix row assume "row \<in> set (map fst rs)"
    then obtain msgs where "(row, msgs) \<in> set rs" by auto
    with mapM_Inr_set [OF that] obtain p where "generate_dist_matrix env p = Inr (row, msgs)"
      by blast
    then show "3 \<le> length row" by (rule generate_dist_matrix_row_length)
  qed
  have a: "(\<exists>network_matrix. generate_network env cluster_pairs = Inr network_matrix)
      \<longleftrightarrow> (\<forall>p\<in>set cluster_pairs. \<exists>row msgs. generate_dist_matrix env p = Inr (row, msgs))"
  proof
    assume "\<exists>network_matrix. generate_network env cluster_pairs = Inr network_matrix"
    then obtain rs where "mapM (generate_dist_matrix env) cluster_pairs = Inr rs"
      by (auto simp: generate_network_def bnd_eq_Inr)
    from mapM_Inr_set [OF this]
    show "\<forall>p\<in>set cluster_pairs. \<exists>row msgs. generate_dist_matrix env p = Inr (row, msgs)"
      by (metis surj_pair)
  next
    assume "\<forall>p\<in>set cluster_pairs. \<exists>row msgs. generate_dist_matrix env p = Inr (row, msgs)"
    then have "\<forall>p\<in>set cluster_pairs. \<exists>y. generate_dist_matrix env p = Inr y" by blast
    from mapM_total [OF this] obtain rs where
      rs: "mapM (generate_dist_matrix env) cluster_pairs = Inr rs" by blast
    show "\<exists>network_matrix. generate_network env cluster_pairs = Inr network_matrix"
      by (simp add: generate_network_def rs store [OF rs])
  qed
  have b: "\<exists>q row' msgs'. q \<in> set cluster_pairs
               \<and> generate_dist_matrix env q = Inr (row', msgs')
               \<and> row_key row' = row_key row
               \<and> network_matrix (row_key row) = Some (drop 3 row')"
    if nm: "generate_network env cluster_pairs = Inr network_matrix"
      and p: "p \<in> set cluster_pairs" "generate_dist_matrix env p = Inr (row, msgs)"
    for network_matrix p row msgs
  proof -
    from nm obtain rs where rs: "mapM (generate_dist_matrix env) cluster_pairs = Inr rs"
      and f: "foldM store_row (map fst rs) Map.empty = Inr network_matrix"
      by (auto simp: generate_network_def bnd_eq_Inr)
    have nm': "network_matrix = fold (\<lambda>row m. m(row_key row \<mapsto> drop 3 row)) (map fst rs) Map.empty"
      using f store [OF rs] by simp
    from mapM_Inr_set [OF rs] p have "(row, msgs) \<in> set rs" by fastforce
    then have "row \<in> set (map fst rs)" by force
    from fold_store_lookup [OF this, of Map.empty] obtain row' where
      row': "row' \<in> set (map fst rs)" "row_key row' = row_key row"
        "network_matrix (row_key row) = Some (drop 3 row')"
      unfolding nm' by blast
    from row'(1) obtain msgs' where "(row', msgs') \<in> set rs" by auto
    with mapM_Inr_set [OF rs] obtain q where "q \<in> set cluster_pairs"
      "generate_dist_matrix env q = Inr (row', msgs')" by blast
    with row' show ?thesis by blast
  qed
  from a b show ?thesis by blast
qed

theorem batch_all_or_nothing_witness:
  "((\<exists>network_matrix. generate_network env4 [(''a'', ''b'', ''mix'')] = Inr network_matrix)
      \<longleftrightarrow> (\<forall>p\<in>set [(''a'', ''b'', ''mix'')]. \<exists>row msgs. generate_dist_matrix env4 p = Inr (row, msgs)))
   \<and> (\<exists>network_matrix. generate_network env4 [(''a'', ''b'', ''mix'')] = Inr network_matrix)"
proof -
  have "\<forall>p\<in>set [(''a'', ''b'', ''mix'')]. \<exists>row msgs. generate_dist_matrix env4 p = Inr (row, msgs)"
    using env4_pairs(1) by simp
  with batch_all_or_nothing [of env4 "[(''a'', ''b'', ''mix'')]"] show ?thesis by blast
qed

subsection \<open>Reuse of tables across partitions\<close>

text \<open>
  A run on three clusters without a common domain: every pair takes the early exit for
  unrelated pairs.
\<close>

lemma env5_rows:
  "generate_dist_matrix env5 (''a'', ''b'', ''mix'') = Inr (unrelated_row ''a'' ''b'', [])"
  "generate_dist_matrix env5 (''a'', ''c'', ''mix'') = Inr (unrelated_row ''a'' ''c'', [])"
  "generate_dist_matrix env5 (''b'', ''c'', ''mix'') = Inr (unrelated_row ''b'' ''c'', [])"
proof -
  have cd: "cluster_distance env5 ''a'' ''b'' [''PF1''] [''PF2''] ''mix''
     = Inr (\<lparr>Distance = 1, Jaccard = 0, DDS = 0, AI = 0, DDS_non_anchor = 1,
             DDS_anchor = 1, S_nonanchor = 2, S_anchor = 0\<rparr>, [])"
    "cluster_distance env5 ''a'' ''c'' [''PF1''] [''PF3''] ''mix''
     = Inr (\<lparr>Distance = 1, Jaccard = 0, DDS = 0, AI = 0, DDS_non_anchor = 1,
             DDS_anchor = 1, S_nonanchor = 2, S_anchor = 0\<rparr>, [])"
    "cluster_distance env5 ''b'' ''c'' [''PF2''] [''PF3''] ''mix''
     = Inr (\<lparr>Distance = 1, Jaccard = 0, DDS = 0, AI = 0, DDS_non_anchor = 1,
             DDS_anchor = 1, S_nonanchor = 2, S_anchor = 0\<rparr>, [])"
    by code_simp+
  have dl: "domain_lists env5 ''a'' ''b'' = Inr ([''PF1''], [''PF2''])"
    "domain_lists env5 ''a'' ''c'' = Inr ([''PF1''], [''PF3''])"
    "domain_lists env5 ''b'' ''c'' = Inr ([''PF2''], [''PF3''])"
    by (simp_all add: domain_lists_def env5_def)
  have g: "py_get (group_dct env5) ''a'' = Inr (''nrps'', ''cluster a'')"
    "py_get (group_dct env5) ''b'' = Inr (''nrps'', ''cluster b'')"
    "py_get (group_dct env5) ''c'' = Inr (''nrps'', ''cluster c'')"
    by (simp_all add: py_get_def env5_def)
  show "generate_dist_matrix env5 (''a'', ''b'', ''mix'') = Inr (unrelated_row ''a'' ''b'', [])"
    by (simp add: generate_dist_matrix_def Let_def dl cd g logscore_def unrelated_row_def)
  show "generate_dist_matrix env5 (''a'', ''c'', ''mix'') = Inr (unrelated_row ''a'' ''c'', [])"
    by (simp add: generate_dist_matrix_def Let_def dl cd g logscore_def unrelated_row_def)
  show "generate_dist_matrix env5 (''b'', ''c'', ''mix'') = Inr (unrelated_row ''b'' ''c'', [])"
    by (simp add: generate_dist_matrix_def Let_def dl cd g logscore_def unrelated_row_def)
qed

lemma env5_pairs:
  "pairs_of [''a'', ''b'', ''c''] = [(''a'', ''b''), (''a'', ''c''), (''b'', ''c'')]"
  "pairs_of [''a'', ''b''] = [(''a'', ''b'')]"
  "pairs_of [''b'', ''c''] = [(''b'', ''c'')]"
  by code_simp+

text \<open>
  C1 at the failing input: three clusters, the all-records mix analysis and the sample
  analysis both requested, two samples \<open>s1 = {a, b}\<close> and \<open>s2 = {b, c}\<close>. The table of
  \<open>s1\<close> is copied from \<^verbatim>\<open>network_matrix_mix\<close>, which is then cleared inside the loop over the
  samples; the copy for \<open>s2\<close> raises KeyError on the key \<open>(b, c, mix)\<close>, although the direct
  computation of that pair set returns a table. With a second sample of one cluster (which
  is skipped) the same run ends normally and the table of \<open>s1\<close> holds the copied value.
\<close>

theorem sample_reuse_fails:
  "networks_main env5 opts5 [''a'', ''b'', ''c'']
     [(''s1'', [''a'', ''b'']), (''s2'', [''b'', ''c''])] = Inl KeyError
   \<and> generate_network env5 [(''b'', ''c'', ''mix'')]
       = Inr [(CStr ''b'', CStr ''c'', CStr ''mix'') \<mapsto> drop 3 (unrelated_row ''b'' ''c'')]
   \<and> (\<exists>st. networks_main env5 opts5 [''a'', ''b'', ''c'']
              [(''s1'', [''a'', ''b'']), (''s2'', [''c''])] = Inr st
         \<and> network_matrix_sample st (CStr ''a'', CStr ''b'', CStr ''mix'')
             = Some (drop 3 (unrelated_row ''a'' ''b'')))"
proof -
  have first: "\<exists>st. networks_main env5 opts5 [''a'', ''b'', ''c'']
              [(''s1'', [''a'', ''b'']), (''s2'', [''c''])] = Inr st
         \<and> network_matrix_sample st (CStr ''a'', CStr ''b'', CStr ''mix'')
             = Some (drop 3 (unrelated_row ''a'' ''b''))"
    by (simp add: networks_main_def networks_all_def networks_samples_def sample_step_def
          sample_mix_def copy_pair_def write_all_def generate_network_def store_row_def
          py_get_def opts5_def Let_def env5_rows env5_pairs unrelated_row_def)
  have direct: "generate_network env5 [(''b'', ''c'', ''mix'')]
       = Inr [(CStr ''b'', CStr ''c'', CStr ''mix'') \<mapsto> drop 3 (unrelated_row ''b'' ''c'')]"
    by (simp add: generate_network_def env5_rows store_row_def unrelated_row_def)
  have "networks_main env5 opts5 [''a'', ''b'', ''c'']
     [(''s1'', [''a'', ''b'']), (''s2'', [''b'', ''c''])] = Inl KeyError"
    by (simp add: networks_main_def networks_all_def networks_samples_def sample_step_def
          sample_mix_def copy_pair_def write_all_def generate_network_def store_row_def
          py_get_def opts5_def Let_def env5_rows env5_pairs unrelated_row_def)
  with direct first show ?thesis by simp
qed

subsection \<open>One shared domain\<close>



subsection \<open>The optimal assignment\<close>







subsection \<open>Cells of the cost matrix\<close>







subsection \<open>Slices\<close>







subsection \<open>Self-comparison\<close>









subsection \<open>Symmetry of the pair evaluator\<close>







































end
